theory Spec2Isabelle
  imports Complex_Main
begin

section \<open>One-port networks of lcapy (oneport.py)\<close>

text \<open>
  The theory embeds the one-port algebra of \<^verbatim>\<open>lcapy/oneport.py\<close>: the resolution of the four
  driving-point quantities on a leaf, the series and parallel combinators with their
  construction checks, the pairwise combination rules and the simplification pass, the
  Thevenin and Norton reductions, and the compound components.

  The symbolic algebra engine is not part of oneport.py. Its values are the type
  parameter \<open>'a\<close>; \<open>0\<close>, \<open>1\<close>, \<open>+\<close>, \<open>*\<close>, \<open>/\<close> and unary minus are the engine's operators,
  taken from the syntactic type classes (which carry no law), and the engine's \<open>==\<close> is
  equality of values.
\<close>

subsection \<open>Errors\<close>

datatype error = ValueError string | TypeError string | AttributeError string

definition bind_r :: "error + 'b \<Rightarrow> ('b \<Rightarrow> error + 'c) \<Rightarrow> error + 'c" where
  "bind_r m f = (case m of Inl err \<Rightarrow> Inl err | Inr x \<Rightarrow> f x)"

lemma bind_r_cong [fundef_cong]:
  "m = m' \<Longrightarrow> (\<And>x. m' = Inr x \<Longrightarrow> f x = g x) \<Longrightarrow> bind_r m f = bind_r m' g"
  by (auto simp: bind_r_def split: sum.splits)

lemma bind_r_simps [simp]:
  "bind_r (Inl err) f = Inl err"
  "bind_r (Inr x) f = f x"
  by (simp_all add: bind_r_def)

subsection \<open>Quantity wrappers\<close>

text \<open>
  Modelled from the spec: the classes Impedance and Admittance, and the expression casts
  cExpr, sExpr, tExpr, Expr, Vs, Is, Vconst and Iconst, live in modules that oneport.py
  imports. The spec calls them thin semantic tags over the symbolic value; the model keeps
  the wrapped value. The classes Voltage and Current are not modelled this way: an
  instance of Voltage and an instance of Current are objects of two classes, so the two
  constructors, and the product and quotient of their instances, are parameters of the
  engine below.
\<close>

definition Impedance :: "'a \<Rightarrow> 'a" where "Impedance x = x"
definition Admittance :: "'a \<Rightarrow> 'a" where "Admittance x = x"
definition cExpr :: "'a \<Rightarrow> 'a" where "cExpr x = x"
definition sExpr :: "'a \<Rightarrow> 'a" where "sExpr x = x"
definition tExpr :: "'a \<Rightarrow> 'a" where "tExpr x = x"
definition Expr :: "'a \<Rightarrow> 'a" where "Expr x = x"
definition Vs :: "'a \<Rightarrow> 'a" where "Vs x = x"
definition Is :: "'a \<Rightarrow> 'a" where "Is x = x"
definition Vconst :: "'a \<Rightarrow> 'a" where "Vconst x = x"
definition Iconst :: "'a \<Rightarrow> 'a" where "Iconst x = x"

lemmas wrappers = Impedance_def Admittance_def cExpr_def sExpr_def
  tExpr_def Expr_def Vs_def Is_def Vconst_def Iconst_def

subsection \<open>The four stored quantities; impedance and admittance of OnePort\<close>

text \<open>
  The class attributes \<^verbatim>\<open>_Z\<close>, \<^verbatim>\<open>_Y\<close>, \<^verbatim>\<open>_Voc\<close>, \<^verbatim>\<open>_Isc\<close> default to None; a constructor sets
  some of them.
\<close>

record 'a quantities =
  stored_Z :: "'a option"
  stored_Y :: "'a option"
  stored_Voc :: "'a option"
  stored_Isc :: "'a option"

definition undefined_msg :: string where
  "undefined_msg = ''_Isc, _Voc, _Y, or _Z undefined''"

definition OnePort_impedance ::
  "('a::{zero,one,inverse}) quantities \<Rightarrow> error + 'a" where
  "OnePort_impedance self =
     (case stored_Z self of Some z \<Rightarrow> Inr z
      | None \<Rightarrow>
     (case stored_Y self of Some y \<Rightarrow> Inr (Impedance (1 / y))
      | None \<Rightarrow>
     (case stored_Voc self of Some voc \<Rightarrow> Inr (Impedance 0)
      | None \<Rightarrow>
     (case stored_Isc self of Some isc \<Rightarrow> Inr (Impedance (1 / Admittance 0))
      | None \<Rightarrow> Inl (ValueError undefined_msg)))))"

definition OnePort_admittance ::
  "('a::{zero,one,inverse}) quantities \<Rightarrow> error + 'a" where
  "OnePort_admittance self =
     (case stored_Y self of Some y \<Rightarrow> Inr y
      | None \<Rightarrow> bind_r (OnePort_impedance self) (\<lambda>z. Inr (Admittance (1 / z))))"

subsection \<open>Classes and instances\<close>

text \<open>
  The classes of oneport.py, with the base class each one is declared with. The abstract
  bases are listed because \<^verbatim>\<open>isinstance\<close> follows the declared hierarchy: Vdc, Vac, Vstep,
  Vnoise, sV and v derive from VoltageSource, not from V, and dually for the current sources.
\<close>

datatype cls =
    OnePort_c | ParSer_c | Par_c | Ser_c
  | R_c | G_c | L_c | C_c | CPE_c | Y_c | Z_c
  | VoltageSource_c | sV_c | V_c | Vstep_c | Vdc_c | Vac_c | Vnoise_c | v_c
  | CurrentSource_c | sI_c | I_c | Istep_c | Idc_c | Iac_c | Inoise_c | i_c
  | Xtal_c | FerriteBead_c
  | ControlledSource_c | CCVS_c | CCCS_c | VCVS_c | VCCS_c
  | Dummy_c | W_c | O_c | P_c

fun base :: "cls \<Rightarrow> cls option" where
  "base OnePort_c = None"
| "base ParSer_c = Some OnePort_c"
| "base Par_c = Some ParSer_c"
| "base Ser_c = Some ParSer_c"
| "base VoltageSource_c = Some OnePort_c"
| "base sV_c = Some VoltageSource_c"
| "base V_c = Some VoltageSource_c"
| "base Vstep_c = Some VoltageSource_c"
| "base Vdc_c = Some VoltageSource_c"
| "base Vac_c = Some VoltageSource_c"
| "base Vnoise_c = Some VoltageSource_c"
| "base v_c = Some VoltageSource_c"
| "base CurrentSource_c = Some OnePort_c"
| "base sI_c = Some CurrentSource_c"
| "base I_c = Some CurrentSource_c"
| "base Istep_c = Some CurrentSource_c"
| "base Idc_c = Some CurrentSource_c"
| "base Iac_c = Some CurrentSource_c"
| "base Inoise_c = Some CurrentSource_c"
| "base i_c = Some CurrentSource_c"
| "base ControlledSource_c = Some OnePort_c"
| "base CCVS_c = Some ControlledSource_c"
| "base CCCS_c = Some ControlledSource_c"
| "base VCVS_c = Some ControlledSource_c"
| "base VCCS_c = Some ControlledSource_c"
| "base Dummy_c = Some OnePort_c"
| "base W_c = Some Dummy_c"
| "base O_c = Some Dummy_c"
| "base P_c = Some O_c"
| "base c = Some OnePort_c"

text \<open>The chain of a class and its bases; no class of the module is deeper than four.\<close>

fun bases :: "nat \<Rightarrow> cls \<Rightarrow> cls list" where
  "bases 0 c = [c]"
| "bases (Suc n) c = c # (case base c of None \<Rightarrow> [] | Some b \<Rightarrow> bases n b)"

definition issubclass :: "cls \<Rightarrow> cls \<Rightarrow> bool" where
  "issubclass c d = (d \<in> set (bases 4 c))"

text \<open>
  An instance carries the attributes its constructor stores. The names are the classes'
  own, except \<open>Open\<close> for class O, and \<open>v_t\<close>, \<open>i_t\<close> for the time-domain sources v and i.
  An optional constructor argument (\<^verbatim>\<open>i0=None\<close>, \<^verbatim>\<open>v0=None\<close>, \<^verbatim>\<open>phi=None\<close>, \<^verbatim>\<open>omega=None\<close>,
  \<^verbatim>\<open>nid=None\<close>) is an option. Xtal and FerriteBead compute \<^verbatim>\<open>_Z\<close> once, in the constructor:
  their last component is that stored \<^verbatim>\<open>_Z\<close>, and \<open>Xtal_init\<close>, \<open>FerriteBead_init\<close> below
  are the constructors. \<open>Dummy\<close> is a bare instance of the class Dummy, which sets nothing.
\<close>

datatype 'a oneport =
    R 'a | G 'a | L 'a "'a option" | C 'a "'a option" | CPE 'a 'a | Y 'a | Z 'a
  | sV 'a | V 'a | Vstep 'a | Vdc 'a | Vac 'a "'a option" "'a option"
  | Vnoise 'a "'a option" | v_t 'a
  | sI 'a | I 'a | Istep 'a | Idc 'a | Iac 'a "'a option" "'a option"
  | Inoise 'a "'a option" | i_t 'a
  | Xtal 'a 'a 'a 'a 'a | FerriteBead 'a 'a 'a 'a 'a
  | CCVS 'a 'a | CCCS 'a 'a | VCVS 'a | VCCS 'a
  | Dummy | W | Open | P
  | Ser "'a oneport list" | Par "'a oneport list"

fun class_of :: "'a oneport \<Rightarrow> cls" where
  "class_of (R r) = R_c"
| "class_of (G g) = G_c"
| "class_of (L l i0) = L_c"
| "class_of (C c v0) = C_c"
| "class_of (CPE k alpha) = CPE_c"
| "class_of (Y y) = Y_c"
| "class_of (Z z) = Z_c"
| "class_of (sV x) = sV_c"
| "class_of (V x) = V_c"
| "class_of (Vstep x) = Vstep_c"
| "class_of (Vdc x) = Vdc_c"
| "class_of (Vac x phi omega) = Vac_c"
| "class_of (Vnoise x nid) = Vnoise_c"
| "class_of (v_t x) = v_c"
| "class_of (sI x) = sI_c"
| "class_of (I x) = I_c"
| "class_of (Istep x) = Istep_c"
| "class_of (Idc x) = Idc_c"
| "class_of (Iac x phi omega) = Iac_c"
| "class_of (Inoise x nid) = Inoise_c"
| "class_of (i_t x) = i_c"
| "class_of (Xtal c0 r1 l1 c1 z) = Xtal_c"
| "class_of (FerriteBead rs rp cp lp z) = FerriteBead_c"
| "class_of (CCVS control val) = CCVS_c"
| "class_of (CCCS control val) = CCCS_c"
| "class_of (VCVS val) = VCVS_c"
| "class_of (VCCS val) = VCCS_c"
| "class_of Dummy = Dummy_c"
| "class_of W = W_c"
| "class_of Open = O_c"
| "class_of P = P_c"
| "class_of (Ser args) = Ser_c"
| "class_of (Par args) = Par_c"

definition isinstance :: "'a oneport \<Rightarrow> cls \<Rightarrow> bool" where
  "isinstance x c = issubclass (class_of x) c"

subsection \<open>The symbolic engine and the network solver\<close>

text \<open>
  What oneport.py imports and the model cannot compute is a parameter: the constructors
  of the classes Voltage and Current, the operators \<^verbatim>\<open>*\<close> and \<^verbatim>\<open>/\<close> of their instances, the symbols
  \<^verbatim>\<open>s\<close>, \<^verbatim>\<open>j\<close>, \<^verbatim>\<open>omega\<close>, the value \<^verbatim>\<open>Heaviside(t)\<close>, \<^verbatim>\<open>exp\<close>, the power \<^verbatim>\<open>**\<close>, the phasor
  and noise constructors, the circuit solver behind \<^verbatim>\<open>self.cct.Voc(1, 0)\<close> and
  \<^verbatim>\<open>self.cct.Isc(1, 0)\<close>, what Voltage and Current make of a network object, and
  \<^verbatim>\<open>simplify\<close> of the base class Network (which a leaf inherits), and, for the Thevenin
  and Norton reductions, the domain tests and transforms of a quantity (\<^verbatim>\<open>is_superposition\<close>,
  \<^verbatim>\<open>is_real\<close>, \<^verbatim>\<open>is_ac\<close>, \<^verbatim>\<open>is_dc\<close>, \<^verbatim>\<open>ac_keys()[0]\<close>, \<^verbatim>\<open>subs\<close>, \<^verbatim>\<open>select\<close>, the call \<^verbatim>\<open>Voc(0)\<close>,
  \<^verbatim>\<open>laplace\<close>) and the method \<^verbatim>\<open>cpt\<close> of each of the four quantity classes, which returns
  a component.
\<close>

record 'a engine =
  Voltage :: "'a \<Rightarrow> 'a"
  Current :: "'a \<Rightarrow> 'a"
  quantity_mul :: "'a \<Rightarrow> 'a \<Rightarrow> error + 'a"
  quantity_div :: "'a \<Rightarrow> 'a \<Rightarrow> error + 'a"
  sym_s :: 'a
  sym_j :: 'a
  sym_omega :: 'a
  Heaviside_t :: 'a
  sym_exp :: "'a \<Rightarrow> 'a"
  sym_pow :: "'a \<Rightarrow> 'a \<Rightarrow> 'a"
  Vphasor :: "'a \<Rightarrow> 'a \<Rightarrow> 'a"
  Iphasor :: "'a \<Rightarrow> 'a \<Rightarrow> 'a"
  Vn :: "'a \<Rightarrow> 'a option \<Rightarrow> 'a"
  In :: "'a \<Rightarrow> 'a option \<Rightarrow> 'a"
  cct_Voc :: "'a oneport \<Rightarrow> error + 'a"
  cct_Isc :: "'a oneport \<Rightarrow> error + 'a"
  network_value :: "'a oneport \<Rightarrow> error + 'a"
  Network_simplify :: "'a oneport \<Rightarrow> error + 'a oneport"
  is_superposition :: "'a \<Rightarrow> bool"
  is_real :: "'a \<Rightarrow> bool"
  is_ac :: "'a \<Rightarrow> bool"
  is_dc :: "'a \<Rightarrow> bool"
  ac_key :: "'a \<Rightarrow> 'a"
  subs :: "'a \<Rightarrow> 'a \<Rightarrow> 'a"
  select :: "'a \<Rightarrow> 'a \<Rightarrow> 'a"
  at_zero :: "'a \<Rightarrow> 'a"
  laplace :: "'a \<Rightarrow> 'a"
  cpt_Voltage :: "'a \<Rightarrow> 'a oneport"
  cpt_Impedance :: "'a \<Rightarrow> 'a oneport"
  cpt_Current :: "'a \<Rightarrow> 'a oneport"
  cpt_Admittance :: "'a \<Rightarrow> 'a oneport"

subsection \<open>Open-circuit voltage and short-circuit current of OnePort\<close>

text \<open>
  \<^verbatim>\<open>self._Isc * self.impedance\<close> is the product of the class Current and
  \<^verbatim>\<open>self.Voc / self.impedance\<close> the quotient of the class of what \<^verbatim>\<open>Voc\<close> returned; both are
  the engine's and may raise.
\<close>

definition OnePort_Voc ::
  "('a::{zero,one,times,inverse}) engine \<Rightarrow> 'a quantities \<Rightarrow> error + 'a" where
  "OnePort_Voc e self =
     (case stored_Voc self of Some voc \<Rightarrow> Inr voc
      | None \<Rightarrow>
     (case stored_Isc self of
        Some isc \<Rightarrow> bind_r (OnePort_impedance self) (\<lambda>z. quantity_mul e isc z)
      | None \<Rightarrow>
     (case stored_Z self of Some z \<Rightarrow> Inr (Voltage e 0)
      | None \<Rightarrow>
     (case stored_Y self of Some y \<Rightarrow> Inr (Current e 0)
      | None \<Rightarrow> Inl (ValueError undefined_msg)))))"

definition OnePort_Isc ::
  "('a::{zero,one,times,inverse}) engine \<Rightarrow> 'a quantities \<Rightarrow> error + 'a" where
  "OnePort_Isc e self =
     (case stored_Isc self of Some isc \<Rightarrow> Inr isc
      | None \<Rightarrow>
        bind_r (OnePort_Voc e self) (\<lambda>voc.
        bind_r (OnePort_impedance self) (\<lambda>z. quantity_div e voc z)))"

subsection \<open>What each constructor stores\<close>

definition unset :: "'a quantities" where
  "unset = \<lparr>stored_Z = None, stored_Y = None, stored_Voc = None, stored_Isc = None\<rparr>"

definition or_zero :: "('a::zero) option \<Rightarrow> 'a" where
  "or_zero x = (case x of None \<Rightarrow> 0 | Some y \<Rightarrow> y)"

definition or_default :: "'a \<Rightarrow> 'a option \<Rightarrow> 'a" where
  "or_default d x = (case x of None \<Rightarrow> d | Some y \<Rightarrow> y)"

fun stored :: "('a::{zero,one,plus,times,uminus,inverse}) engine \<Rightarrow> 'a oneport \<Rightarrow> 'a quantities" where
  "stored e (R Rval) = unset\<lparr>stored_Z := Some (Impedance (cExpr Rval))\<rparr>"
| "stored e (G Gval) = unset\<lparr>stored_Z := Some (1 / Admittance (cExpr Gval))\<rparr>"
| "stored e (L Lval i0) =
     unset\<lparr>stored_Z := Some (Impedance (sym_s e * cExpr Lval)),
           stored_Voc := Some (Voltage e (- Vs (cExpr (or_zero i0) * cExpr Lval)))\<rparr>"
| "stored e (C Cval v0) =
     unset\<lparr>stored_Z := Some (Impedance (1 / (sym_s e * cExpr Cval))),
           stored_Voc := Some (Voltage e (Vs (cExpr (or_zero v0)) / sym_s e))\<rparr>"
| "stored e (CPE K alpha) =
     unset\<lparr>stored_Z := Some (Impedance (1 / (sym_pow e (sym_s e) (cExpr alpha) * cExpr K)))\<rparr>"
| "stored e (Y Yval) = unset\<lparr>stored_Z := Some (1 / Admittance Yval)\<rparr>"
| "stored e (Z Zval) = unset\<lparr>stored_Z := Some (Impedance Zval)\<rparr>"
| "stored e (sV Vval) = unset\<lparr>stored_Voc := Some (Voltage e (Vs (sExpr Vval)))\<rparr>"
| "stored e (V Vval) = unset\<lparr>stored_Voc := Some (Voltage e Vval)\<rparr>"
| "stored e (Vstep x) =
     unset\<lparr>stored_Voc := Some (Voltage e (tExpr (cExpr x) * Heaviside_t e))\<rparr>"
| "stored e (Vdc x) = unset\<lparr>stored_Voc := Some (Voltage e (Vconst (cExpr x)))\<rparr>"
| "stored e (Vac x phi omega) =
     unset\<lparr>stored_Voc := Some (Voltage e (Vphasor e
        (Expr x * sym_exp e (sym_j e * Expr (or_zero phi)))
        (case omega of None \<Rightarrow> sym_omega e | Some w \<Rightarrow> Expr w)))\<rparr>"
| "stored e (Vnoise x nid) = unset\<lparr>stored_Voc := Some (Voltage e (Vn e x nid))\<rparr>"
| "stored e (v_t vval) = unset\<lparr>stored_Voc := Some (Voltage e (tExpr vval))\<rparr>"
| "stored e (sI Ival) = unset\<lparr>stored_Isc := Some (Current e (Is (sExpr Ival)))\<rparr>"
| "stored e (I Ival) = unset\<lparr>stored_Isc := Some (Current e Ival)\<rparr>"
| "stored e (Istep x) =
     unset\<lparr>stored_Isc := Some (Current e (tExpr (cExpr x) * Heaviside_t e))\<rparr>"
| "stored e (Idc x) = unset\<lparr>stored_Isc := Some (Current e (Iconst (cExpr x)))\<rparr>"
| "stored e (Iac x phi omega) =
     unset\<lparr>stored_Isc := Some (Current e (Iphasor e
        (Expr x * sym_exp e (sym_j e * Expr (or_zero phi)))
        (case omega of None \<Rightarrow> sym_omega e | Some w \<Rightarrow> Expr w)))\<rparr>"
| "stored e (Inoise x nid) = unset\<lparr>stored_Isc := Some (Current e (In e x nid))\<rparr>"
| "stored e (i_t ival) = unset\<lparr>stored_Isc := Some (Current e (tExpr ival))\<rparr>"
| "stored e (Xtal C0 R1 L1 C1 z) = unset\<lparr>stored_Z := Some z\<rparr>"
| "stored e (FerriteBead Rs Rp Cp Lp z) = unset\<lparr>stored_Z := Some z\<rparr>"
| "stored e (CCVS control val) =
     unset\<lparr>stored_Voc := Some (Voltage e 0), stored_Z := Some (Impedance 0)\<rparr>"
| "stored e (CCCS control val) =
     unset\<lparr>stored_Isc := Some (Current e 0), stored_Y := Some (Admittance 0)\<rparr>"
| "stored e (VCVS val) =
     unset\<lparr>stored_Voc := Some (Voltage e 0), stored_Z := Some (Impedance 0)\<rparr>"
| "stored e (VCCS val) =
     unset\<lparr>stored_Isc := Some (Current e 0), stored_Y := Some (Admittance 0)\<rparr>"
| "stored e Dummy = unset"
| "stored e W = unset\<lparr>stored_Z := Some (Impedance 0)\<rparr>"
| "stored e Open = unset\<lparr>stored_Y := Some (Admittance 0)\<rparr>"
| "stored e P = unset\<lparr>stored_Y := Some (Admittance 0)\<rparr>"
| "stored e (Ser args) = unset"
| "stored e (Par args) = unset"

subsection \<open>Impedance and admittance of a network\<close>

text \<open>
  The loop \<^verbatim>\<open>Z = 0; for arg in self.args: Z += arg.impedance\<close>: the first child whose
  property raises ends it.
\<close>

fun accumulate :: "('b \<Rightarrow> error + 'a) \<Rightarrow> ('a::plus) \<Rightarrow> 'b list \<Rightarrow> error + 'a" where
  "accumulate f acc [] = Inr acc"
| "accumulate f acc (arg # args) =
     (case f arg of Inl err \<Rightarrow> Inl err | Inr x \<Rightarrow> accumulate f (acc + x) args)"

lemma accumulate_cong [fundef_cong]:
  "xs = ys \<Longrightarrow> a = b \<Longrightarrow> (\<And>x. x \<in> set ys \<Longrightarrow> f x = g x) \<Longrightarrow>
   accumulate f a xs = accumulate g b ys"
  by (induction ys arbitrary: xs a b) (auto split: sum.splits)

text \<open>
  Ser overrides \<^verbatim>\<open>impedance\<close>, Par overrides \<^verbatim>\<open>admittance\<close> and \<^verbatim>\<open>impedance\<close>. Ser defines a
  property named \<^verbatim>\<open>Admittance\<close> (capital A), so its \<^verbatim>\<open>admittance\<close> is the one of OnePort:
  \<^verbatim>\<open>_Y\<close> is None on a Ser, and \<^verbatim>\<open>self.impedance\<close> there is the sum of Ser.
\<close>

lemma size_child: "x \<in> set args \<Longrightarrow> size x \<le> size_list size args"
  by (induction args) auto

function (sequential) impedance ::
    "('a::{zero,one,plus,times,uminus,inverse}) engine \<Rightarrow> 'a oneport \<Rightarrow> error + 'a"
  and admittance ::
    "('a::{zero,one,plus,times,uminus,inverse}) engine \<Rightarrow> 'a oneport \<Rightarrow> error + 'a"
where
  "impedance e (Ser args) =
     bind_r (accumulate (impedance e) 0 args) (\<lambda>z. Inr (Impedance z))"
| "impedance e (Par args) =
     bind_r (admittance e (Par args)) (\<lambda>y. Inr (Impedance (1 / y)))"
| "impedance e x = OnePort_impedance (stored e x)"
| "admittance e (Par args) =
     bind_r (accumulate (admittance e) 0 args) (\<lambda>y. Inr (Admittance y))"
| "admittance e (Ser args) =
     bind_r (impedance e (Ser args)) (\<lambda>z. Inr (Admittance (1 / z)))"
| "admittance e x = OnePort_admittance (stored e x)"
  by pat_completeness auto

termination
  by (relation "measure (\<lambda>p. case p of
        Inl (e, x) \<Rightarrow> 2 * size x + (case x of Par args \<Rightarrow> 1 | _ \<Rightarrow> 0)
      | Inr (e, x) \<Rightarrow> 2 * size x + (case x of Ser args \<Rightarrow> 1 | _ \<Rightarrow> 0))")
     (auto dest!: size_child split: oneport.splits)

subsection \<open>Open-circuit voltage, short-circuit current and their aliases\<close>

text \<open>
  ParSer overrides \<^verbatim>\<open>Voc\<close> and \<^verbatim>\<open>Isc\<close> with the circuit solver; a leaf has the properties of
  OnePort. \<^verbatim>\<open>V\<close> is \<^verbatim>\<open>self.Voc\<close>. \<^verbatim>\<open>I\<close> is \<^verbatim>\<open>Current(0)\<close> in OnePort and \<^verbatim>\<open>self.Isc\<close> in
  CurrentSource.
\<close>

definition Voc :: "('a::{zero,one,plus,times,uminus,inverse}) engine \<Rightarrow> 'a oneport \<Rightarrow> error + 'a" where
  "Voc e x = (if isinstance x ParSer_c then cct_Voc e x else OnePort_Voc e (stored e x))"

definition Isc :: "('a::{zero,one,plus,times,uminus,inverse}) engine \<Rightarrow> 'a oneport \<Rightarrow> error + 'a" where
  "Isc e x = (if isinstance x ParSer_c then cct_Isc e x else OnePort_Isc e (stored e x))"

definition V_property :: "('a::{zero,one,plus,times,uminus,inverse}) engine \<Rightarrow> 'a oneport \<Rightarrow> error + 'a" where
  "V_property e x = Voc e x"

definition I_property :: "('a::{zero,one,plus,times,uminus,inverse}) engine \<Rightarrow> 'a oneport \<Rightarrow> error + 'a" where
  "I_property e x = (if isinstance x CurrentSource_c then Isc e x else Inr (Current e 0))"

subsection \<open>The constructors of Par and Ser\<close>

text \<open>
  \<^verbatim>\<open>_check_oneport_args\<close> raises for an argument that is not a OnePort; every element of
  a \<open>'a oneport list\<close> is one. The two loops of \<^verbatim>\<open>__init__\<close> visit the pairs \<open>n < m\<close> in
  order and raise at the first pair of two instances of V (Par) or of I (Ser). The
  \<^verbatim>\<open>print\<close> of the other two branches writes a warning and changes nothing; the warnings
  are collected by \<open>Par_warnings\<close> and \<open>Ser_warnings\<close>.
\<close>

definition parallel_msg :: string where
  "parallel_msg = ''Voltage sources connected in parallel''"

definition series_msg :: string where
  "series_msg = ''Current sources connected in series''"

fun Par_pairs :: "'a oneport \<Rightarrow> 'a oneport list \<Rightarrow> error option" where
  "Par_pairs arg1 [] = None"
| "Par_pairs arg1 (arg2 # rest) =
     (if isinstance arg1 V_c \<and> isinstance arg2 V_c then Some (ValueError parallel_msg)
      else Par_pairs arg1 rest)"

fun Par_check :: "'a oneport list \<Rightarrow> error option" where
  "Par_check [] = None"
| "Par_check (arg1 # rest) =
     (case Par_pairs arg1 rest of Some err \<Rightarrow> Some err | None \<Rightarrow> Par_check rest)"

definition Par_init :: "'a oneport list \<Rightarrow> error + 'a oneport" where
  "Par_init args = (case Par_check args of Some err \<Rightarrow> Inl err | None \<Rightarrow> Inr (Par args))"

fun Ser_pairs :: "'a oneport \<Rightarrow> 'a oneport list \<Rightarrow> error option" where
  "Ser_pairs arg1 [] = None"
| "Ser_pairs arg1 (arg2 # rest) =
     (if isinstance arg1 I_c \<and> isinstance arg2 I_c then Some (ValueError series_msg)
      else Ser_pairs arg1 rest)"

fun Ser_check :: "'a oneport list \<Rightarrow> error option" where
  "Ser_check [] = None"
| "Ser_check (arg1 # rest) =
     (case Ser_pairs arg1 rest of Some err \<Rightarrow> Some err | None \<Rightarrow> Ser_check rest)"

definition Ser_init :: "'a oneport list \<Rightarrow> error + 'a oneport" where
  "Ser_init args = (case Ser_check args of Some err \<Rightarrow> Inl err | None \<Rightarrow> Inr (Ser args))"

text \<open>The pairs (redundant component, source) that a constructor which returns has printed.\<close>

fun Par_warnings :: "'a oneport list \<Rightarrow> ('a oneport \<times> 'a oneport) list" where
  "Par_warnings [] = []"
| "Par_warnings (arg1 # rest) =
     concat (map (\<lambda>arg2. if isinstance arg1 V_c then [(arg2, arg1)]
                          else if isinstance arg2 V_c then [(arg1, arg2)] else []) rest)
     @ Par_warnings rest"

fun Ser_warnings :: "'a oneport list \<Rightarrow> ('a oneport \<times> 'a oneport) list" where
  "Ser_warnings [] = []"
| "Ser_warnings (arg1 # rest) =
     concat (map (\<lambda>arg2. if isinstance arg1 I_c then [(arg2, arg1)]
                          else if isinstance arg2 I_c then [(arg1, arg2)] else []) rest)
     @ Ser_warnings rest"

text \<open>\<^verbatim>\<open>self.__class__(*args)\<close> for a ParSer, and the operators \<^verbatim>\<open>+\<close> and \<^verbatim>\<open>|\<close> of OnePort.\<close>

definition construct :: "cls \<Rightarrow> 'a oneport list \<Rightarrow> error + 'a oneport" where
  "construct c args =
     (if c = Ser_c then Ser_init args
      else if c = Par_c then Par_init args
      else Inl (TypeError ''Undefined class''))"

definition add_op :: "'a oneport \<Rightarrow> 'a oneport \<Rightarrow> error + 'a oneport" where
  "add_op self OP = Ser_init [self, OP]"

definition or_op :: "'a oneport \<Rightarrow> 'a oneport \<Rightarrow> error + 'a oneport" where
  "or_op self OP = Par_init [self, OP]"

subsection \<open>Compound components\<close>

text \<open>
  \<^verbatim>\<open>expand\<close> of OnePort returns the component; Xtal and FerriteBead build their model with
  \<^verbatim>\<open>+\<close> and \<^verbatim>\<open>|\<close> (left-associative, as Python parses them) from the attributes the constructor
  stored with cExpr. The constructor then fixes \<^verbatim>\<open>_Z = self.expand().impedance\<close>.
\<close>

definition Xtal_expand :: "'a \<Rightarrow> 'a \<Rightarrow> 'a \<Rightarrow> 'a \<Rightarrow> error + 'a oneport" where
  "Xtal_expand C0 R1 L1 C1 =
     bind_r (add_op (R R1) (L L1 None)) (\<lambda>rl.
     bind_r (add_op rl (C C1 None)) (\<lambda>rlc.
     or_op rlc (C C0 None)))"

definition FerriteBead_expand :: "'a \<Rightarrow> 'a \<Rightarrow> 'a \<Rightarrow> 'a \<Rightarrow> error + 'a oneport" where
  "FerriteBead_expand Rs Rp Cp Lp =
     bind_r (add_op (R Rp) (L Lp None)) (\<lambda>rl.
     bind_r (add_op rl (C Cp None)) (\<lambda>rlc.
     add_op (R Rs) rlc))"

definition Xtal_init ::
  "('a::{zero,one,plus,times,uminus,inverse}) engine \<Rightarrow> 'a \<Rightarrow> 'a \<Rightarrow> 'a \<Rightarrow> 'a \<Rightarrow> error + 'a oneport" where
  "Xtal_init e C0 R1 L1 C1 =
     bind_r (Xtal_expand (cExpr C0) (cExpr R1) (cExpr L1) (cExpr C1)) (\<lambda>net.
     bind_r (impedance e net) (\<lambda>z.
     Inr (Xtal (cExpr C0) (cExpr R1) (cExpr L1) (cExpr C1) z)))"

definition FerriteBead_init ::
  "('a::{zero,one,plus,times,uminus,inverse}) engine \<Rightarrow> 'a \<Rightarrow> 'a \<Rightarrow> 'a \<Rightarrow> 'a \<Rightarrow> error + 'a oneport" where
  "FerriteBead_init e Rs Rp Cp Lp =
     bind_r (FerriteBead_expand (cExpr Rs) (cExpr Rp) (cExpr Cp) (cExpr Lp)) (\<lambda>net.
     bind_r (impedance e net) (\<lambda>z.
     Inr (FerriteBead (cExpr Rs) (cExpr Rp) (cExpr Cp) (cExpr Lp) z)))"

fun expand_args :: "('b \<Rightarrow> error + 'c) \<Rightarrow> 'b list \<Rightarrow> error + 'c list" where
  "expand_args f [] = Inr []"
| "expand_args f (arg # args) =
     bind_r (f arg) (\<lambda>newarg. bind_r (expand_args f args) (\<lambda>newargs. Inr (newarg # newargs)))"

lemma expand_args_cong [fundef_cong]:
  "xs = ys \<Longrightarrow> (\<And>x. x \<in> set ys \<Longrightarrow> f x = g x) \<Longrightarrow> expand_args f xs = expand_args g ys"
  by (induction ys arbitrary: xs) (auto simp: bind_r_def split: sum.splits)

fun expand :: "'a oneport \<Rightarrow> error + 'a oneport" where
  "expand (Xtal C0 R1 L1 C1 z) = Xtal_expand C0 R1 L1 C1"
| "expand (FerriteBead Rs Rp Cp Lp z) = FerriteBead_expand Rs Rp Cp Lp"
| "expand (Ser args) = bind_r (expand_args expand args) Ser_init"
| "expand (Par args) = bind_r (expand_args expand args) Par_init"
| "expand x = Inr x"

subsection \<open>The combination rules (ParSer._combine)\<close>

text \<open>The attributes that \<^verbatim>\<open>_combine\<close> reads; a class without the attribute raises.\<close>

fun attr_v0 :: "('a::zero) oneport \<Rightarrow> error + 'a" where
  "attr_v0 (Vstep x) = Inr (cExpr x)"
| "attr_v0 (Vdc x) = Inr (cExpr x)"
| "attr_v0 (Vac x phi omega) = Inr (Expr x)"
| "attr_v0 (C Cval v0) = Inr (cExpr (or_zero v0))"
| "attr_v0 x = Inl (AttributeError ''v0'')"

fun attr_i0 :: "('a::zero) oneport \<Rightarrow> error + 'a" where
  "attr_i0 (Istep x) = Inr (cExpr x)"
| "attr_i0 (Idc x) = Inr (cExpr x)"
| "attr_i0 (Iac x phi omega) = Inr (Expr x)"
| "attr_i0 (L Lval i0) = Inr (cExpr (or_zero i0))"
| "attr_i0 x = Inl (AttributeError ''i0'')"

fun attr_hasic :: "'a oneport \<Rightarrow> error + bool" where
  "attr_hasic (L Lval i0) = Inr (i0 \<noteq> None)"
| "attr_hasic (C Cval v0) = Inr (v0 \<noteq> None)"
| "attr_hasic x = Inl (AttributeError ''hasic'')"

fun attr_R :: "'a oneport \<Rightarrow> error + 'a" where
  "attr_R (R Rval) = Inr (cExpr Rval)"
| "attr_R x = Inl (AttributeError ''_R'')"

fun attr_G :: "'a oneport \<Rightarrow> error + 'a" where
  "attr_G (G Gval) = Inr (cExpr Gval)"
| "attr_G x = Inl (AttributeError ''_G'')"

fun attr_L :: "'a oneport \<Rightarrow> error + 'a" where
  "attr_L (L Lval i0) = Inr (cExpr Lval)"
| "attr_L x = Inl (AttributeError ''L'')"

fun attr_C :: "'a oneport \<Rightarrow> error + 'a" where
  "attr_C (C Cval v0) = Inr (cExpr Cval)"
| "attr_C x = Inl (AttributeError ''C'')"

text \<open>\<^verbatim>\<open>isinstance(arg, K) and arg.prop == 0\<close>: the property is read only for an instance.\<close>

definition and_zero :: "bool \<Rightarrow> error + ('a::zero) \<Rightarrow> error + bool" where
  "and_zero inst prop = (if inst then bind_r prop (\<lambda>x. Inr (x = 0)) else Inr False)"

definition combine_Ser_differ ::
  "('a::{zero,one,plus,times,uminus,inverse}) engine \<Rightarrow> 'a oneport \<Rightarrow> 'a oneport
    \<Rightarrow> error + 'a oneport option" where
  "combine_Ser_differ e arg1 arg2 =
     bind_r (and_zero (isinstance arg1 V_c) (Voc e arg1)) (\<lambda>t1.
     if t1 then Inr (Some arg2) else
     bind_r (and_zero (isinstance arg2 V_c) (Voc e arg2)) (\<lambda>t2.
     if t2 then Inr (Some arg1) else
     bind_r (and_zero (isinstance arg1 R_c \<or> isinstance arg1 Z_c) (impedance e arg1)) (\<lambda>t3.
     if t3 then Inr (Some arg2) else
     bind_r (and_zero (isinstance arg2 R_c \<or> isinstance arg2 Z_c) (impedance e arg2)) (\<lambda>t4.
     if t4 then Inr (Some arg1) else Inr None))))"

definition combine_Par_differ ::
  "('a::{zero,one,plus,times,uminus,inverse}) engine \<Rightarrow> 'a oneport \<Rightarrow> 'a oneport
    \<Rightarrow> error + 'a oneport option" where
  "combine_Par_differ e arg1 arg2 =
     bind_r (and_zero (isinstance arg1 I_c) (Isc e arg1)) (\<lambda>t1.
     if t1 then Inr (Some arg2) else
     bind_r (and_zero (isinstance arg2 I_c) (Isc e arg2)) (\<lambda>t2.
     if t2 then Inr (Some arg1) else
     bind_r (and_zero (isinstance arg1 Y_c \<or> isinstance arg1 G_c) (admittance e arg1)) (\<lambda>t3.
     if t3 then Inr (Some arg2) else
     bind_r (and_zero (isinstance arg2 Y_c \<or> isinstance arg2 G_c) (admittance e arg2)) (\<lambda>t4.
     if t4 then Inr (Some arg1) else Inr None))))"

definition inductors_msg :: string where
  "inductors_msg = ''Series inductors with different initial currents!''"

definition capacitors_msg :: string where
  "capacitors_msg = ''Parallel capacitors with different initial voltages!''"

definition combine_Ser_same ::
  "('a::{zero,one,plus,times,uminus,inverse}) engine \<Rightarrow> 'a oneport \<Rightarrow> 'a oneport
    \<Rightarrow> error + 'a oneport option" where
  "combine_Ser_same e arg1 arg2 =
     (if isinstance arg1 I_c then Inr None
      else if isinstance arg1 Vdc_c then
        bind_r (attr_v0 arg1) (\<lambda>a. bind_r (attr_v0 arg2) (\<lambda>b. Inr (Some (Vdc (a + b)))))
      else if isinstance arg1 V_c then
        bind_r (add_op arg1 arg2) (\<lambda>net. bind_r (network_value e net) (\<lambda>x. Inr (Some (V x))))
      else if isinstance arg1 R_c then
        bind_r (attr_R arg1) (\<lambda>a. bind_r (attr_R arg2) (\<lambda>b. Inr (Some (R (a + b)))))
      else if isinstance arg1 L_c then
        bind_r (attr_i0 arg1) (\<lambda>i1. bind_r (attr_i0 arg2) (\<lambda>i2.
        bind_r (attr_hasic arg1) (\<lambda>h1. bind_r (attr_hasic arg2) (\<lambda>h2.
        if i1 \<noteq> i2 \<or> h1 \<noteq> h2 then Inl (ValueError inductors_msg)
        else bind_r (attr_L arg1) (\<lambda>a. bind_r (attr_L arg2) (\<lambda>b.
             Inr (Some (L (a + b) (if h1 then Some i1 else None)))))))))
      else if isinstance arg1 G_c then
        bind_r (attr_G arg1) (\<lambda>a. bind_r (attr_G arg2) (\<lambda>b. Inr (Some (G (a * b / (a + b))))))
      else if isinstance arg1 C_c then
        bind_r (attr_hasic arg1) (\<lambda>h1. bind_r (attr_hasic arg2) (\<lambda>h2.
        bind_r (attr_v0 arg1) (\<lambda>v1. bind_r (attr_v0 arg2) (\<lambda>v2.
        bind_r (attr_C arg1) (\<lambda>a. bind_r (attr_C arg2) (\<lambda>b.
        Inr (Some (C (a * b / (a + b)) (if h1 \<or> h2 then Some (v1 + v2) else None)))))))))
      else Inr None)"

definition combine_Par_same ::
  "('a::{zero,one,plus,times,uminus,inverse}) engine \<Rightarrow> 'a oneport \<Rightarrow> 'a oneport
    \<Rightarrow> error + 'a oneport option" where
  "combine_Par_same e arg1 arg2 =
     (if isinstance arg1 V_c then Inr None
      else if isinstance arg1 Idc_c then
        bind_r (attr_i0 arg1) (\<lambda>a. bind_r (attr_i0 arg2) (\<lambda>b. Inr (Some (Idc (a + b)))))
      else if isinstance arg1 I_c then
        bind_r (add_op arg1 arg2) (\<lambda>net. bind_r (network_value e net) (\<lambda>x. Inr (Some (I x))))
      else if isinstance arg1 G_c then
        bind_r (attr_G arg1) (\<lambda>a. bind_r (attr_G arg2) (\<lambda>b. Inr (Some (G (a + b)))))
      else if isinstance arg1 C_c then
        bind_r (attr_v0 arg1) (\<lambda>v1. bind_r (attr_v0 arg2) (\<lambda>v2.
        bind_r (attr_hasic arg1) (\<lambda>h1. bind_r (attr_hasic arg2) (\<lambda>h2.
        if v1 \<noteq> v2 \<or> h1 \<noteq> h2 then Inl (ValueError capacitors_msg)
        else bind_r (attr_C arg1) (\<lambda>a. bind_r (attr_C arg2) (\<lambda>b.
             Inr (Some (C (a + b) (if h1 then Some v1 else None)))))))))
      else if isinstance arg1 R_c then
        bind_r (attr_R arg1) (\<lambda>a. bind_r (attr_R arg2) (\<lambda>b. Inr (Some (R (a * b / (a + b))))))
      else if isinstance arg1 L_c then
        bind_r (attr_hasic arg1) (\<lambda>h1. bind_r (attr_hasic arg2) (\<lambda>h2.
        bind_r (attr_i0 arg1) (\<lambda>i1. bind_r (attr_i0 arg2) (\<lambda>i2.
        bind_r (attr_L arg1) (\<lambda>a. bind_r (attr_L arg2) (\<lambda>b.
        Inr (Some (L (a * b / (a + b)) (if h1 \<or> h2 then Some (i1 + i2) else None)))))))))
      else Inr None)"

text \<open>\<open>self_class\<close> is \<^verbatim>\<open>self.__class__\<close>; the result None is "no rule".\<close>

definition combine ::
  "('a::{zero,one,plus,times,uminus,inverse}) engine \<Rightarrow> cls \<Rightarrow> 'a oneport \<Rightarrow> 'a oneport
    \<Rightarrow> error + 'a oneport option" where
  "combine e self_class arg1 arg2 =
     (if class_of arg1 \<noteq> class_of arg2 then
        (if self_class = Ser_c then combine_Ser_differ e arg1 arg2
         else if self_class = Par_c then combine_Par_differ e arg1 arg2
         else Inr None)
      else if self_class = Ser_c then combine_Ser_same e arg1 arg2
      else if self_class = Par_c then combine_Par_same e arg1 arg2
      else Inl (TypeError ''Undefined class''))"

subsection \<open>Simplification (ParSer.simplify)\<close>

fun args_of :: "'a oneport \<Rightarrow> 'a oneport list" where
  "args_of (Ser args) = args"
| "args_of (Par args) = args"
| "args_of x = []"

text \<open>
  The first loop: a child that is a ParSer is simplified, and spliced in when the result
  has the class of \<open>self\<close>. \<open>new\<close> and \<open>newargs\<close> are the loop's variables.
\<close>

fun flatten_args ::
  "('a oneport \<Rightarrow> error + 'a oneport) \<Rightarrow> cls \<Rightarrow> 'a oneport list \<Rightarrow> bool \<Rightarrow> 'a oneport list
    \<Rightarrow> error + (bool \<times> 'a oneport list)" where
  "flatten_args simp c [] new newargs = Inr (new, newargs)"
| "flatten_args simp c (arg # args) new newargs =
     (if isinstance arg ParSer_c then
        bind_r (simp arg) (\<lambda>arg'.
          flatten_args simp c args True
            (if class_of arg' = c then newargs @ args_of arg' else newargs @ [arg']))
      else flatten_args simp c args new (newargs @ [arg]))"

lemma flatten_args_cong [fundef_cong]:
  "xs = ys \<Longrightarrow> (\<And>x. x \<in> set ys \<Longrightarrow> f x = g x) \<Longrightarrow>
   flatten_args f c xs new acc = flatten_args g c ys new acc"
  by (induction ys arbitrary: xs new acc) (auto simp: bind_r_def split: sum.splits)

text \<open>
  The scan works on a copy of the argument list in which a consumed argument is None.
  \<open>scan_inner\<close> is the loop over \<open>m > n\<close> for one \<open>arg1\<close>: it returns the final \<open>arg1\<close>,
  the rest of the list and the flag \<open>new\<close>. \<open>scan_outer\<close> is the loop over \<open>n\<close>.
\<close>

fun scan_inner ::
  "('a::{zero,one,plus,times,uminus,inverse}) engine \<Rightarrow> cls \<Rightarrow> 'a oneport
    \<Rightarrow> 'a oneport option list \<Rightarrow> bool
    \<Rightarrow> error + ('a oneport \<times> 'a oneport option list \<times> bool)" where
  "scan_inner e c arg1 [] new = Inr (arg1, [], new)"
| "scan_inner e c arg1 (None # rest) new =
     bind_r (scan_inner e c arg1 rest new) (\<lambda>(a, rest', n). Inr (a, None # rest', n))"
| "scan_inner e c arg1 (Some arg2 # rest) new =
     (if isinstance arg2 ParSer_c then
        bind_r (scan_inner e c arg1 rest new) (\<lambda>(a, rest', n). Inr (a, Some arg2 # rest', n))
      else
        bind_r (combine e c arg1 arg2) (\<lambda>newarg.
          case newarg of
            None \<Rightarrow>
              bind_r (scan_inner e c arg1 rest new)
                (\<lambda>(a, rest', n). Inr (a, Some arg2 # rest', n))
          | Some arg1' \<Rightarrow>
              bind_r (scan_inner e c arg1' rest True)
                (\<lambda>(a, rest', n). Inr (a, None # rest', n))))"

lemma scan_inner_length:
  "scan_inner e c arg1 xs new = Inr (a, xs', n) \<Longrightarrow> length xs' = length xs"
proof (induction xs arbitrary: arg1 new a xs' n)
  case Nil
  then show ?case by simp
next
  case (Cons x xs)
  show ?case
  proof (cases x)
    case None
    with Cons.prems obtain a1 r1 n1 where
      "scan_inner e c arg1 xs new = Inr (a1, r1, n1)" "xs' = None # r1"
      by (auto simp: bind_r_def split: sum.splits)
    with Cons.IH show ?thesis by fastforce
  next
    case (Some arg2)
    with Cons.prems obtain b a1 r1 n1 y where
      "scan_inner e c b xs y = Inr (a1, r1, n1)" "length xs' = Suc (length r1)"
      by (auto simp: bind_r_def split: sum.splits if_splits option.splits)
    with Cons.IH show ?thesis by fastforce
  qed
qed

function scan_outer ::
  "('a::{zero,one,plus,times,uminus,inverse}) engine \<Rightarrow> cls \<Rightarrow> 'a oneport option list \<Rightarrow> bool
    \<Rightarrow> error + ('a oneport option list \<times> bool)" where
  "scan_outer e c [] new = Inr ([], new)"
| "scan_outer e c (None # rest) new =
     bind_r (scan_outer e c rest new) (\<lambda>(r, n). Inr (None # r, n))"
| "scan_outer e c (Some arg1 # rest) new =
     (if isinstance arg1 ParSer_c then
        bind_r (scan_outer e c rest new) (\<lambda>(r, n). Inr (Some arg1 # r, n))
      else
        bind_r (scan_inner e c arg1 rest new) (\<lambda>(a, rest', n).
        bind_r (scan_outer e c rest' n) (\<lambda>(r, n'). Inr (Some a # r, n'))))"
  by pat_completeness auto
termination
  by (relation "measure (\<lambda>(e, c, xs, new). length xs)")
     (auto dest: scan_inner_length)

fun not_None :: "'b option list \<Rightarrow> 'b list" where
  "not_None [] = []"
| "not_None (None # xs) = not_None xs"
| "not_None (Some x # xs) = x # not_None xs"

text \<open>
  The part of \<^verbatim>\<open>simplify\<close> after the first loop: \<open>self\<close> is rebuilt when a child was
  simplified, the scan runs, and when it combined something \<open>self\<close> is the one argument
  left or is rebuilt from those left.
\<close>

definition simplify_scan ::
  "('a::{zero,one,plus,times,uminus,inverse}) engine \<Rightarrow> cls \<Rightarrow> 'a oneport
    \<Rightarrow> bool \<times> 'a oneport list \<Rightarrow> error + 'a oneport" where
  "simplify_scan e c self flat =
     bind_r (if fst flat then construct c (snd flat) else Inr self) (\<lambda>self1.
     bind_r (scan_outer e c (map Some (args_of self1)) False) (\<lambda>(args, new).
       if new then
         (case not_None args of
            [arg] \<Rightarrow> Inr arg
          | args' \<Rightarrow> construct c args')
       else Inr self1))"

fun simplify ::
  "('a::{zero,one,plus,times,uminus,inverse}) engine \<Rightarrow> bool \<Rightarrow> 'a oneport \<Rightarrow> error + 'a oneport" where
  "simplify e deep (Ser args) =
     bind_r (flatten_args (simplify e deep) Ser_c args False [])
       (simplify_scan e Ser_c (Ser args))"
| "simplify e deep (Par args) =
     bind_r (flatten_args (simplify e deep) Par_c args False [])
       (simplify_scan e Par_c (Par args))"
| "simplify e deep x = Network_simplify e x"

subsection \<open>Thevenin and Norton reduction\<close>

text \<open>The warning printed in the first branch changes nothing and is left out.\<close>

definition domain_resolution ::
  "('a::{zero,one,plus,times,uminus,inverse}) engine \<Rightarrow> 'a \<Rightarrow> 'a \<Rightarrow> 'a \<times> 'a" where
  "domain_resolution e src imm =
     (if is_superposition e src \<and> \<not> is_real e imm then (imm, laplace e src)
      else if is_ac e src then
        (subs e imm (sym_j e * ac_key e src), select e src (ac_key e src))
      else if is_dc e src then (subs e imm 0, at_zero e src)
      else (imm, src))"

definition thevenin ::
  "('a::{zero,one,plus,times,uminus,inverse}) engine \<Rightarrow> 'a oneport \<Rightarrow> error + 'a oneport" where
  "thevenin e self =
     bind_r (simplify e True self) (\<lambda>new.
     bind_r (Voc e new) (\<lambda>voc.
     bind_r (impedance e new) (\<lambda>z.
     let (Z1, V1) = domain_resolution e voc z;
         V1' = cpt_Voltage e V1;
         Z1' = cpt_Impedance e Z1
     in if voc = 0 then Inr Z1'
        else if z = 0 then Inr V1'
        else Ser_init [Z1', V1'])))"

definition norton ::
  "('a::{zero,one,plus,times,uminus,inverse}) engine \<Rightarrow> 'a oneport \<Rightarrow> error + 'a oneport" where
  "norton e self =
     bind_r (simplify e True self) (\<lambda>new.
     bind_r (Isc e new) (\<lambda>isc.
     bind_r (admittance e new) (\<lambda>y.
     let (Y1, I1) = domain_resolution e isc y;
         I1' = cpt_Current e I1;
         Y1' = cpt_Admittance e Y1
     in if isc = 0 then Inr Y1'
        else if y = 0 then Inr I1'
        else Par_init [Y1', I1'])))"

subsection \<open>A point interpretation of the engine\<close>

text \<open>
  To run the model on concrete networks the engine is read in the rationals, with the
  symbol \<open>s\<close> at the point 2: an equation between symbolic values holds at every point
  where both sides are defined, so two values that differ here differ in the engine.
  Voltage and Current keep the value, and their product and quotient are those of the
  values.
  Modelled from the spec: \<^verbatim>\<open>cpt\<close> turns a quantity back into a leaf component; here it is
  the general component of its kind (V, Z, I, Y), and \<^verbatim>\<open>simplify\<close> of Network returns the
  leaf. No domain test holds, so the reductions pass the quantities through. The circuit
  solver is absent: \<open>cct_Voc\<close> and \<open>cct_Isc\<close> raise.
\<close>

definition point_engine :: "rat engine" where
  "point_engine = \<lparr>
     Voltage = (\<lambda>x. x), Current = (\<lambda>x. x),
     quantity_mul = (\<lambda>x y. Inr (x * y)), quantity_div = (\<lambda>x y. Inr (x / y)),
     sym_s = 2, sym_j = 0, sym_omega = 1, Heaviside_t = 1,
     sym_exp = (\<lambda>x. 1), sym_pow = (\<lambda>x y. x),
     Vphasor = (\<lambda>x w. x), Iphasor = (\<lambda>x w. x),
     Vn = (\<lambda>x nid. x), In = (\<lambda>x nid. x),
     cct_Voc = (\<lambda>net. Inl (ValueError ''no circuit solver'')),
     cct_Isc = (\<lambda>net. Inl (ValueError ''no circuit solver'')),
     network_value = (\<lambda>net. Inl (TypeError ''network object'')),
     Network_simplify = Inr,
     is_superposition = (\<lambda>x. False), is_real = (\<lambda>x. True),
     is_ac = (\<lambda>x. False), is_dc = (\<lambda>x. False),
     ac_key = (\<lambda>x. 0), subs = (\<lambda>x y. x), select = (\<lambda>x k. x),
     at_zero = (\<lambda>x. x), laplace = (\<lambda>x. x),
     cpt_Voltage = V, cpt_Impedance = Z, cpt_Current = I, cpt_Admittance = Y\<rparr>"

subsection \<open>An interpretation that keeps the two classes apart\<close>

text \<open>
  In the point interpretation a Voltage and a Current with the same value are equal. The
  second interpretation tags a value with the class of the object that holds it: an
  expression, a Voltage or a Current. Arithmetic acts on the values and yields an
  expression; the product of a Current and the quotient of a Voltage are tagged by their
  physical kind.
\<close>

datatype quantity_class = Expr_q | Voltage_q | Current_q

datatype tagged = Tagged quantity_class rat

fun tagged_value :: "tagged \<Rightarrow> rat" where
  "tagged_value (Tagged c x) = x"

definition expression :: "rat \<Rightarrow> tagged" where
  "expression x = Tagged Expr_q x"

instantiation tagged :: "{zero,one,plus,times,uminus,inverse}"
begin

definition zero_tagged_def: "0 = expression 0"

definition one_tagged_def: "1 = expression 1"

definition plus_tagged_def: "a + b = expression (tagged_value a + tagged_value b)"

definition times_tagged_def: "a * b = expression (tagged_value a * tagged_value b)"

definition uminus_tagged_def: "- a = expression (- tagged_value a)"

definition inverse_tagged_def: "inverse a = expression (inverse (tagged_value a))"

definition divide_tagged_def: "divide a b = expression (tagged_value a / tagged_value b)"

instance ..

end

definition tagged_engine :: "tagged engine" where
  "tagged_engine = \<lparr>
     Voltage = (\<lambda>x. Tagged Voltage_q (tagged_value x)),
     Current = (\<lambda>x. Tagged Current_q (tagged_value x)),
     quantity_mul = (\<lambda>x y. Inr (Tagged Voltage_q (tagged_value x * tagged_value y))),
     quantity_div = (\<lambda>x y. Inr (Tagged Current_q (tagged_value x / tagged_value y))),
     sym_s = expression 2, sym_j = 0, sym_omega = 1, Heaviside_t = 1,
     sym_exp = (\<lambda>x. 1), sym_pow = (\<lambda>x y. x),
     Vphasor = (\<lambda>x w. x), Iphasor = (\<lambda>x w. x),
     Vn = (\<lambda>x nid. x), In = (\<lambda>x nid. x),
     cct_Voc = (\<lambda>net. Inl (ValueError ''no circuit solver'')),
     cct_Isc = (\<lambda>net. Inl (ValueError ''no circuit solver'')),
     network_value = (\<lambda>net. Inl (TypeError ''network object'')),
     Network_simplify = Inr,
     is_superposition = (\<lambda>x. False), is_real = (\<lambda>x. True),
     is_ac = (\<lambda>x. False), is_dc = (\<lambda>x. False),
     ac_key = (\<lambda>x. 0), subs = (\<lambda>x y. x), select = (\<lambda>x k. x),
     at_zero = (\<lambda>x. x), laplace = (\<lambda>x. x),
     cpt_Voltage = V, cpt_Impedance = Z, cpt_Current = I, cpt_Admittance = Y\<rparr>"

text \<open>Whether a network contains a Par node.\<close>

fun has_Par :: "'a oneport \<Rightarrow> bool" where
  "has_Par (Par args) = True"
| "has_Par (Ser args) = list_ex has_Par args"
| "has_Par x = False"

section \<open>Properties\<close>

subsection \<open>Classes\<close>

lemma bases_4: "bases 4 c = bases (Suc (Suc (Suc (Suc 0)))) c"
  by (simp add: eval_nat_numeral)

lemma issubclass_leaf:
  "c \<notin> {OnePort_c, ParSer_c, VoltageSource_c, CurrentSource_c, ControlledSource_c, Dummy_c, O_c}
   \<Longrightarrow> issubclass d c = (d = c)"
  by (cases d) (auto simp: issubclass_def bases_4)

lemma isinstance_leaf:
  "c \<notin> {OnePort_c, ParSer_c, VoltageSource_c, CurrentSource_c, ControlledSource_c, Dummy_c, O_c}
   \<Longrightarrow> isinstance x c = (class_of x = c)"
  by (simp add: isinstance_def issubclass_leaf)

lemma isinstance_ParSer:
  "isinstance x ParSer_c = (class_of x = Ser_c \<or> class_of x = Par_c)"
  by (cases x) (simp_all add: isinstance_def issubclass_def bases_4)

lemma isinstance_CurrentSource:
  "isinstance x CurrentSource_c =
     (class_of x \<in> {sI_c, I_c, Istep_c, Idc_c, Iac_c, Inoise_c, i_c})"
  by (cases x) (simp_all add: isinstance_def issubclass_def bases_4)

lemma isinstance_VoltageSource:
  "isinstance x VoltageSource_c =
     (class_of x \<in> {sV_c, V_c, Vstep_c, Vdc_c, Vac_c, Vnoise_c, v_c})"
  by (cases x) (simp_all add: isinstance_def issubclass_def bases_4)

lemmas isinstance_V = isinstance_leaf [of V_c, simplified]
lemmas isinstance_I = isinstance_leaf [of I_c, simplified]

lemmas isinstance_leaves =
  isinstance_leaf [of V_c, simplified] isinstance_leaf [of I_c, simplified]
  isinstance_leaf [of R_c, simplified] isinstance_leaf [of Z_c, simplified]
  isinstance_leaf [of Y_c, simplified] isinstance_leaf [of G_c, simplified]
  isinstance_leaf [of L_c, simplified] isinstance_leaf [of C_c, simplified]
  isinstance_leaf [of Vdc_c, simplified] isinstance_leaf [of Idc_c, simplified]

lemmas tagged_arith =
  zero_tagged_def one_tagged_def plus_tagged_def times_tagged_def uminus_tagged_def
  inverse_tagged_def divide_tagged_def expression_def

lemma tagged_engine_fields:
  "Voltage tagged_engine = (\<lambda>x. Tagged Voltage_q (tagged_value x))"
  "Current tagged_engine = (\<lambda>x. Tagged Current_q (tagged_value x))"
  "quantity_mul tagged_engine = (\<lambda>x y. Inr (Tagged Voltage_q (tagged_value x * tagged_value y)))"
  "quantity_div tagged_engine = (\<lambda>x y. Inr (Tagged Current_q (tagged_value x / tagged_value y)))"
  "sym_s tagged_engine = expression 2"
  by (simp_all add: tagged_engine_def)

lemma point_resolution: "domain_resolution point_engine src imm = (imm, src)"
  by (simp add: domain_resolution_def point_engine_def)

lemma point_engine_fields:
  "Voltage point_engine = (\<lambda>x. x)"
  "Current point_engine = (\<lambda>x. x)"
  "quantity_mul point_engine = (\<lambda>x y. Inr (x * y))"
  "quantity_div point_engine = (\<lambda>x y. Inr (x / y))"
  "sym_s point_engine = 2"
  "Network_simplify point_engine = Inr"
  "cpt_Voltage point_engine = V"
  "cpt_Impedance point_engine = Z"
  "cpt_Current point_engine = I"
  "cpt_Admittance point_engine = Y"
  by (simp_all add: point_engine_def)

subsection \<open>Resolution of the impedance of a leaf\<close>

text \<open>
  C1. For every leaf one-port, reading \<^verbatim>\<open>impedance\<close> resolves in this order, first match
  winning: the stored \<^verbatim>\<open>_Z\<close> if it is set; otherwise \<^verbatim>\<open>Impedance(1 / _Y)\<close> if \<^verbatim>\<open>_Y\<close> is set;
  otherwise \<^verbatim>\<open>Impedance(0)\<close> if \<^verbatim>\<open>_Voc\<close> is set; otherwise \<^verbatim>\<open>Impedance(1 / Admittance(0))\<close>
  if \<^verbatim>\<open>_Isc\<close> is set; and when none of the four is set the access raises. The first five
  conjuncts are the order, for any setting \<open>q\<close> of the four attributes; the last says that
  every instance that is not a Par or a Ser reads its impedance this way.
\<close>

theorem impedance_resolution_order:
  fixes q :: "('a::{zero,one,plus,times,uminus,inverse}) quantities"
    and x :: "'a oneport"
  shows "(stored_Z q = Some z \<longrightarrow> OnePort_impedance q = Inr z)
    \<and> (stored_Z q = None \<and> stored_Y q = Some y \<longrightarrow>
         OnePort_impedance q = Inr (Impedance (1 / y)))
    \<and> (stored_Z q = None \<and> stored_Y q = None \<and> stored_Voc q = Some voc \<longrightarrow>
         OnePort_impedance q = Inr (Impedance 0))
    \<and> (stored_Z q = None \<and> stored_Y q = None \<and> stored_Voc q = None \<and> stored_Isc q = Some isc \<longrightarrow>
         OnePort_impedance q = Inr (Impedance (1 / Admittance 0)))
    \<and> (stored_Z q = None \<and> stored_Y q = None \<and> stored_Voc q = None \<and> stored_Isc q = None \<longrightarrow>
         OnePort_impedance q = Inl (ValueError undefined_msg))
    \<and> (\<not> isinstance x ParSer_c \<longrightarrow> impedance e x = OnePort_impedance (stored e x))"
proof -
  have leaf: "\<not> isinstance x ParSer_c \<Longrightarrow> impedance e x = OnePort_impedance (stored e x)"
    by (cases x) (simp_all add: isinstance_ParSer)
  show ?thesis
    using leaf by (simp add: OnePort_impedance_def)
qed

theorem impedance_resolution_order_witness:
  "impedance point_engine (R 5) = Inr 5
   \<and> impedance point_engine Open = Inr (Impedance (1 / Admittance 0))
   \<and> impedance point_engine (V 3) = Inr (Impedance 0)
   \<and> impedance point_engine (I 3) = Inr (Impedance (1 / Admittance 0))
   \<and> impedance point_engine Dummy = Inl (ValueError undefined_msg)
   \<and> impedance point_engine (CCCS 1 1) = Inr (Impedance (1 / Admittance 0))
   \<and> impedance point_engine (L 10 (Some 5)) = Inr 20"
  using impedance_resolution_order [of "stored point_engine (R 5)" 5 0 0 0 "R 5" point_engine]
    impedance_resolution_order [of "stored point_engine Open" 0 "Admittance 0" 0 0 Open point_engine]
    impedance_resolution_order [of "stored point_engine (V 3)" 0 0 3 0 "V 3" point_engine]
    impedance_resolution_order [of "stored point_engine (I 3)" 0 0 0 3 "I 3" point_engine]
    impedance_resolution_order [of "stored point_engine Dummy" 0 0 0 0 Dummy point_engine]
    impedance_resolution_order [of "stored point_engine (CCCS 1 1)" 0 "Admittance 0" 0 0 "CCCS 1 1" point_engine]
    impedance_resolution_order [of "stored point_engine (L 10 (Some 5))" 20 0 0 0 "L 10 (Some 5)" point_engine]
  by (simp add: isinstance_ParSer unset_def wrappers point_engine_fields or_zero_def)

subsection \<open>Resolution of Voc and Isc of a leaf\<close>

text \<open>
  C7. For every leaf one-port, reading \<^verbatim>\<open>Voc\<close> resolves in this order, first match winning:
  the stored \<^verbatim>\<open>_Voc\<close> if set; otherwise \<^verbatim>\<open>_Isc * impedance\<close> if \<^verbatim>\<open>_Isc\<close> is set; otherwise
  \<^verbatim>\<open>Voltage(0)\<close> if \<^verbatim>\<open>_Z\<close> is set; otherwise \<^verbatim>\<open>Current(0)\<close>, a zero of the class Current, if
  \<^verbatim>\<open>_Y\<close> is set; and it raises when none of the four is set. Reading \<^verbatim>\<open>Isc\<close> returns the
  stored \<^verbatim>\<open>_Isc\<close> if set and otherwise \<^verbatim>\<open>Voc / impedance\<close>, raising when \<^verbatim>\<open>Voc\<close> raises. The
  statement holds for every engine, so also for one in which a Voltage and a Current of
  the same value differ; the witness runs the order in such an engine.
\<close>

theorem Voc_Isc_resolution_order:
  fixes e :: "('a::{zero,one,plus,times,uminus,inverse}) engine"
    and q :: "'a quantities"
    and x :: "'a oneport"
  shows "(stored_Voc q = Some voc \<longrightarrow> OnePort_Voc e q = Inr voc)
    \<and> (stored_Voc q = None \<and> stored_Isc q = Some isc \<and> OnePort_impedance q = Inr imp \<longrightarrow>
         OnePort_Voc e q = quantity_mul e isc imp)
    \<and> (stored_Voc q = None \<and> stored_Isc q = None \<and> stored_Z q = Some z \<longrightarrow>
         OnePort_Voc e q = Inr (Voltage e 0))
    \<and> (stored_Voc q = None \<and> stored_Isc q = None \<and> stored_Z q = None \<and> stored_Y q = Some y \<longrightarrow>
         OnePort_Voc e q = Inr (Current e 0))
    \<and> (stored_Voc q = None \<and> stored_Isc q = None \<and> stored_Z q = None \<and> stored_Y q = None \<longrightarrow>
         OnePort_Voc e q = Inl (ValueError undefined_msg))
    \<and> (stored_Isc q = Some isc \<longrightarrow> OnePort_Isc e q = Inr isc)
    \<and> (stored_Isc q = None \<and> OnePort_Voc e q = Inr v \<and> OnePort_impedance q = Inr imp \<longrightarrow>
         OnePort_Isc e q = quantity_div e v imp)
    \<and> (stored_Isc q = None \<and> OnePort_Voc e q = Inl err \<longrightarrow> OnePort_Isc e q = Inl err)
    \<and> (\<not> isinstance x ParSer_c \<longrightarrow>
         Voc e x = OnePort_Voc e (stored e x) \<and> Isc e x = OnePort_Isc e (stored e x))"
  by (simp add: OnePort_Voc_def OnePort_Isc_def Voc_def Isc_def)

theorem Voc_Isc_resolution_order_witness:
  "Voc tagged_engine (V (expression 3)) = Inr (Tagged Voltage_q 3)
   \<and> OnePort_Voc tagged_engine
        (unset\<lparr>stored_Z := Some (expression 4), stored_Isc := Some (Tagged Current_q 3)\<rparr>) =
       Inr (Tagged Voltage_q 12)
   \<and> Voc tagged_engine (R (expression 5)) = Inr (Tagged Voltage_q 0)
   \<and> Voc tagged_engine Open = Inr (Tagged Current_q 0)
   \<and> Voc tagged_engine (R (expression 5)) \<noteq> Voc tagged_engine Open
   \<and> Voc tagged_engine Dummy = Inl (ValueError undefined_msg)
   \<and> Isc tagged_engine (I (expression 3)) = Inr (Tagged Current_q 3)
   \<and> Isc tagged_engine (C (expression 10) (Some (expression 5))) = Inr (Tagged Current_q 50)
   \<and> Isc tagged_engine Dummy = Inl (ValueError undefined_msg)"
  using
    Voc_Isc_resolution_order [where e = tagged_engine and q = "stored tagged_engine (V (expression 3))"
      and x = "V (expression 3)" and voc = "Tagged Voltage_q 3" and isc = "0" and imp = "0"
      and z = 0 and y = 0 and v = "0" and err = "ValueError undefined_msg"]
    Voc_Isc_resolution_order [where e = tagged_engine and q = "unset\<lparr>stored_Z := Some (expression 4), stored_Isc := Some (Tagged Current_q 3)\<rparr>"
      and x = "Dummy" and voc = "0" and isc = "Tagged Current_q 3" and imp = "expression 4"
      and z = 0 and y = 0 and v = "0" and err = "ValueError undefined_msg"]
    Voc_Isc_resolution_order [where e = tagged_engine and q = "stored tagged_engine (R (expression 5))"
      and x = "R (expression 5)" and voc = "0" and isc = "0" and imp = "0"
      and z = 0 and y = 0 and v = "0" and err = "ValueError undefined_msg"]
    Voc_Isc_resolution_order [where e = tagged_engine and q = "stored tagged_engine Open"
      and x = "Open" and voc = "0" and isc = "0" and imp = "0"
      and z = 0 and y = 0 and v = "0" and err = "ValueError undefined_msg"]
    Voc_Isc_resolution_order [where e = tagged_engine and q = "stored tagged_engine Dummy"
      and x = "Dummy" and voc = "0" and isc = "0" and imp = "0"
      and z = 0 and y = 0 and v = "0" and err = "ValueError undefined_msg"]
    Voc_Isc_resolution_order [where e = tagged_engine and q = "stored tagged_engine (I (expression 3))"
      and x = "I (expression 3)" and voc = "0" and isc = "Tagged Current_q 3" and imp = "0"
      and z = 0 and y = 0 and v = "0" and err = "ValueError undefined_msg"]
    Voc_Isc_resolution_order [where e = tagged_engine and q = "stored tagged_engine (C (expression 10) (Some (expression 5)))"
      and x = "C (expression 10) (Some (expression 5))" and voc = "Tagged Voltage_q (5 / 2)" and isc = "0" and imp = "expression (1 / 20)"
      and z = 0 and y = 0 and v = "Tagged Voltage_q (5 / 2)" and err = "ValueError undefined_msg"]
  by (simp add: isinstance_ParSer unset_def wrappers tagged_engine_fields tagged_arith
      or_zero_def OnePort_impedance_def OnePort_Voc_def OnePort_Isc_def Voc_def Isc_def)

subsection \<open>Impedance of a Ser, admittance of a Par\<close>

lemma accumulate_all:
  "map f args = map Inr zs \<Longrightarrow> accumulate f a args = Inr (foldl (+) a zs)"
  by (induction args arbitrary: a zs) auto

lemma accumulate_error:
  "x \<in> set args \<Longrightarrow> f x = Inl err \<Longrightarrow> \<exists>err'. accumulate f a args = Inl err'"
  by (induction args arbitrary: a) (auto split: sum.splits)

text \<open>
  C4. For every Ser, the impedance is the sum of its children's impedances (accumulated
  from 0 in the order of the arguments), and for every Par the admittance is the sum of
  its children's admittances; the dual quantity (admittance of a Ser, impedance of a Par)
  is the reciprocal of that sum, not a sum of the children's dual quantities. \<open>zs\<close> and
  \<open>ys\<close> are the children's values; a child whose property raises makes the composite's
  raise.
\<close>

theorem series_parallel_sums:
  fixes e :: "('a::{zero,one,plus,times,uminus,inverse}) engine"
  shows "(map (impedance e) args = map Inr zs \<longrightarrow>
           impedance e (Ser args) = Inr (Impedance (foldl (+) 0 zs))
         \<and> admittance e (Ser args) = Inr (Admittance (1 / Impedance (foldl (+) 0 zs))))
    \<and> (map (admittance e) args = map Inr ys \<longrightarrow>
           admittance e (Par args) = Inr (Admittance (foldl (+) 0 ys))
         \<and> impedance e (Par args) = Inr (Impedance (1 / Admittance (foldl (+) 0 ys))))
    \<and> (x \<in> set args \<and> impedance e x = Inl err \<longrightarrow>
           (\<exists>err'. impedance e (Ser args) = Inl err') \<and> (\<exists>err'. admittance e (Ser args) = Inl err'))
    \<and> (x \<in> set args \<and> admittance e x = Inl err \<longrightarrow>
           (\<exists>err'. admittance e (Par args) = Inl err') \<and> (\<exists>err'. impedance e (Par args) = Inl err'))"
proof -
  have ser: "impedance e (Ser args) = Inr (Impedance (foldl (+) 0 zs))"
    if "map (impedance e) args = map Inr zs"
    using accumulate_all [OF that, of 0] by simp
  have par: "admittance e (Par args) = Inr (Admittance (foldl (+) 0 ys))"
    if "map (admittance e) args = map Inr ys"
    using accumulate_all [OF that, of 0] by simp
  have ser_err: "\<exists>err'. impedance e (Ser args) = Inl err'"
    if "x \<in> set args" "impedance e x = Inl err"
    using accumulate_error [of x args "impedance e" err 0] that by auto
  have par_err: "\<exists>err'. admittance e (Par args) = Inl err'"
    if "x \<in> set args" "admittance e x = Inl err"
    using accumulate_error [of x args "admittance e" err 0] that by auto
  show ?thesis
    using ser par ser_err par_err by (auto simp del: impedance.simps(1) admittance.simps(1))
qed

theorem series_parallel_sums_witness:
  "impedance point_engine (Ser [R 2, R 3]) = Inr 5
   \<and> admittance point_engine (Ser [R 2, R 3]) = Inr (1 / 5)
   \<and> map (admittance point_engine) [R 2, R 3] = [Inr (1 / 2), Inr (1 / 3)]
   \<and> admittance point_engine (Par [R 2, R 3]) = Inr (5 / 6)
   \<and> impedance point_engine (Par [R 2, R 3]) = Inr (6 / 5)
   \<and> impedance point_engine (Ser [R 2, Dummy]) = Inl (ValueError undefined_msg)"
  using series_parallel_sums [of point_engine "[R 2, R 3]" "[2, 3]" "[1 / 2, 1 / 3]" Dummy "ValueError undefined_msg"]
  by (simp add: unset_def wrappers OnePort_impedance_def OnePort_admittance_def)

subsection \<open>The aliases V and I\<close>

text \<open>
  C8, as amended. \<^verbatim>\<open>V\<close> returns what \<^verbatim>\<open>Voc\<close> returns, for every one-port. \<^verbatim>\<open>I\<close> returns what
  \<^verbatim>\<open>Isc\<close> returns for an instance of CurrentSource; for every other one-port \<^verbatim>\<open>I\<close> is
  \<^verbatim>\<open>Current(0)\<close> (the open-circuit current, as the docstring of OnePort.I says), whatever
  the short-circuit current is. The counterexample is the capacitor \<^verbatim>\<open>C(10, 5)\<close>, whose
  short-circuit current is 50 (as test_C asserts) while \<^verbatim>\<open>I\<close> is 0.
\<close>

theorem aliases_V_and_I:
  fixes e :: "('a::{zero,one,plus,times,uminus,inverse}) engine"
  shows "V_property e x = Voc e x
    \<and> (isinstance x CurrentSource_c \<longrightarrow> I_property e x = Isc e x)
    \<and> (\<not> isinstance x CurrentSource_c \<longrightarrow> I_property e x = Inr (Current e 0))"
  by (simp add: V_property_def I_property_def)

theorem aliases_V_and_I_witness:
  "V_property point_engine (Vdc 10) = Inr 10
   \<and> Voc point_engine (Vdc 10) = Inr 10
   \<and> I_property point_engine (Idc 3) = Inr 3
   \<and> Isc point_engine (Idc 3) = Inr 3
   \<and> I_property point_engine (Ser [Vdc 10, R 5]) = Inr 0"
  using aliases_V_and_I [of point_engine "Vdc 10"] aliases_V_and_I [of point_engine "Idc 3"]
    aliases_V_and_I [of point_engine "Ser [Vdc 10, R 5]"]
  by (simp add: isinstance_CurrentSource isinstance_ParSer Voc_def Isc_def OnePort_Voc_def
      OnePort_Isc_def unset_def wrappers point_engine_fields)

theorem I_alias_counterexample:
  "I_property point_engine (C 10 (Some 5)) = Inr 0
   \<and> Isc point_engine (C 10 (Some 5)) = Inr 50
   \<and> I_property point_engine (C 10 (Some 5)) \<noteq> Isc point_engine (C 10 (Some 5))"
  by (simp add: I_property_def isinstance_CurrentSource isinstance_ParSer Isc_def OnePort_Isc_def
      OnePort_Voc_def OnePort_impedance_def unset_def wrappers or_zero_def point_engine_fields)

subsection \<open>The construction checks of Par and Ser\<close>

lemma Par_pairs_error: "Par_pairs a xs = Some err \<Longrightarrow> err = ValueError parallel_msg"
  by (induction xs) (auto split: if_splits)

lemma Ser_pairs_error: "Ser_pairs a xs = Some err \<Longrightarrow> err = ValueError series_msg"
  by (induction xs) (auto split: if_splits)

lemma Par_pairs_V: "Par_pairs (V a) (ys @ V b # zs) = Some (ValueError parallel_msg)"
  by (induction ys) (auto simp: isinstance_V)

lemma Ser_pairs_I: "Ser_pairs (I a) (ys @ I b # zs) = Some (ValueError series_msg)"
  by (induction ys) (auto simp: isinstance_I)

lemma Par_check_V: "Par_check (xs @ V a # ys @ V b # zs) = Some (ValueError parallel_msg)"
  by (induction xs) (auto simp: Par_pairs_V dest: Par_pairs_error split: option.splits)

lemma Ser_check_I: "Ser_check (xs @ I a # ys @ I b # zs) = Some (ValueError series_msg)"
  by (induction xs) (auto simp: Ser_pairs_I dest: Ser_pairs_error split: option.splits)

lemma Par_pairs_classes:
  "class_of a = class_of a' \<Longrightarrow> map class_of xs = map class_of xs' \<Longrightarrow>
   Par_pairs a xs = Par_pairs a' xs'"
  by (induction xs arbitrary: xs') (auto simp: isinstance_def)

lemma Ser_pairs_classes:
  "class_of a = class_of a' \<Longrightarrow> map class_of xs = map class_of xs' \<Longrightarrow>
   Ser_pairs a xs = Ser_pairs a' xs'"
  by (induction xs arbitrary: xs') (auto simp: isinstance_def)

lemma Par_check_classes:
  "map class_of xs = map class_of xs' \<Longrightarrow> Par_check xs = Par_check xs'"
proof (induction xs arbitrary: xs')
  case Nil
  then show ?case by simp
next
  case (Cons x xs)
  then obtain y ys where xs': "xs' = y # ys" "class_of x = class_of y"
      "map class_of xs = map class_of ys"
    by (cases xs') auto
  have a: "Par_pairs x xs = Par_pairs y ys"
    using xs' by (intro Par_pairs_classes)
  have b: "Par_check xs = Par_check ys"
    using xs' by (intro Cons.IH)
  show ?case unfolding xs' by (simp only: Par_check.simps a b)
qed

lemma Ser_check_classes:
  "map class_of xs = map class_of xs' \<Longrightarrow> Ser_check xs = Ser_check xs'"
proof (induction xs arbitrary: xs')
  case Nil
  then show ?case by simp
next
  case (Cons x xs)
  then obtain y ys where xs': "xs' = y # ys" "class_of x = class_of y"
      "map class_of xs = map class_of ys"
    by (cases xs') auto
  have a: "Ser_pairs x xs = Ser_pairs y ys"
    using xs' by (intro Ser_pairs_classes)
  have b: "Ser_check xs = Ser_check ys"
    using xs' by (intro Cons.IH)
  show ?case unfolding xs' by (simp only: Ser_check.simps a b)
qed

text \<open>
  C9. A Par whose arguments contain two instances of the class V raises, wherever the two
  stand among the arguments and whatever their values, equal or not; dually a Ser with two
  instances of the class I. The check reads the classes of the arguments only: two argument
  lists with the same classes, position by position, get the same verdict.
\<close>

theorem two_V_in_Par_two_I_in_Ser:
  fixes xs ys zs xs' ys' zs' args args' :: "'a oneport list"
  shows "Par_init (xs @ V a # ys @ V b # zs) = Inl (ValueError parallel_msg)
   \<and> Ser_init (xs' @ I a' # ys' @ I b' # zs') = Inl (ValueError series_msg)
   \<and> (map class_of args = map class_of args' \<longrightarrow>
        Par_check args = Par_check args' \<and> Ser_check args = Ser_check args')"
proof -
  have 1: "Par_init (xs @ V a # ys @ V b # zs) = Inl (ValueError parallel_msg)"
    by (simp add: Par_init_def Par_check_V)
  have 2: "Ser_init (xs' @ I a' # ys' @ I b' # zs') = Inl (ValueError series_msg)"
    by (simp add: Ser_init_def Ser_check_I)
  have 3: "Par_check args = Par_check args'" "Ser_check args = Ser_check args'"
    if "map class_of args = map class_of args'"
    using that by (rule Par_check_classes, rule Ser_check_classes)
  from 1 2 3 show ?thesis by blast
qed

theorem two_V_in_Par_two_I_in_Ser_witness:
  "Par_init [V 1, V (1::rat)] = Inl (ValueError parallel_msg)
   \<and> Par_init [R 5, V 1, C 3 None, V (2::rat)] = Inl (ValueError parallel_msg)
   \<and> Ser_init [I 1, I (1::rat)] = Inl (ValueError series_msg)
   \<and> Ser_init [L 5 None, I 1, I (2::rat)] = Inl (ValueError series_msg)
   \<and> Par_check [V 1, V (1::rat)] = Par_check [V 1, V (2::rat)]
   \<and> Ser_check [I 1, I (1::rat)] = Ser_check [I 1, I (2::rat)]"
  using two_V_in_Par_two_I_in_Ser [of "[]" 1 "[]" "1::rat" "[]" "[]" 1 "[]" 1 "[]" "[V 1, V 1]" "[V 1, V 2]"]
    two_V_in_Par_two_I_in_Ser [of "[R 5]" 1 "[C 3 None]" "2::rat" "[]" "[L 5 None]" 1 "[]" 2 "[]" "[I 1, I 1]" "[I 1, I 2]"]
  by (simp add: isinstance_V isinstance_I)

text \<open>
  C2. The claim extends the check to every class of the two source families. The
  constructors test \<^verbatim>\<open>isinstance(arg, V)\<close> and \<^verbatim>\<open>isinstance(arg, I)\<close>, and Vdc, Vac, Vstep, Vnoise,
  sV, v derive from VoltageSource, not from V (dually for I): a Par of two such voltage
  sources, or of a V and one of them, is constructed, and so is a Ser of two such current
  sources.
\<close>

theorem other_sources_are_not_checked:
  "Par_init [Vdc 1, Vdc (2::rat)] = Inr (Par [Vdc 1, Vdc 2])
   \<and> Par_init [V 1, Vdc (2::rat)] = Inr (Par [V 1, Vdc 2])
   \<and> Par_init [Vac 1 None None, Vstep (2::rat)] = Inr (Par [Vac 1 None None, Vstep 2])
   \<and> Par_init [Vnoise 1 None, sV (2::rat), v_t 3] = Inr (Par [Vnoise 1 None, sV 2, v_t 3])
   \<and> Ser_init [Idc 1, Idc (2::rat)] = Inr (Ser [Idc 1, Idc 2])
   \<and> Ser_init [I 1, Idc (2::rat)] = Inr (Ser [I 1, Idc 2])
   \<and> Ser_init [Iac 1 None None, Istep (2::rat)] = Inr (Ser [Iac 1 None None, Istep 2])
   \<and> Ser_init [Inoise 1 None, sI (2::rat), i_t 3] = Inr (Ser [Inoise 1 None, sI 2, i_t 3])
   \<and> isinstance (Vdc (1::rat)) VoltageSource_c \<and> \<not> isinstance (Vdc (1::rat)) V_c
   \<and> isinstance (Idc (1::rat)) CurrentSource_c \<and> \<not> isinstance (Idc (1::rat)) I_c"
  by (simp add: Par_init_def Ser_init_def isinstance_V isinstance_I isinstance_VoltageSource
      isinstance_CurrentSource)

subsection \<open>The ferrite bead\<close>

text \<open>
  C10. For all parameters, the constructor of FerriteBead stores as \<^verbatim>\<open>_Z\<close> the series sum
  \<open>Rs + Rp + s * Lp + 1 / (s * Cp)\<close>, which is then the impedance of the bead, and \<^verbatim>\<open>expand\<close>
  is the chain \<^verbatim>\<open>R(Rs) + (R(Rp) + L(Lp) + C(Cp))\<close> of Ser nodes, with no Par node. The sum is
  read in a field, where the zeros the loops start from vanish.
\<close>

theorem FerriteBead_series_chain:
  fixes e :: "('a::field) engine"
  shows "FerriteBead_init e Rs Rp Cp Lp =
           Inr (FerriteBead Rs Rp Cp Lp (Rs + Rp + sym_s e * Lp + 1 / (sym_s e * Cp)))
    \<and> impedance e (FerriteBead Rs Rp Cp Lp (Rs + Rp + sym_s e * Lp + 1 / (sym_s e * Cp))) =
           Inr (Rs + Rp + sym_s e * Lp + 1 / (sym_s e * Cp))
    \<and> expand (FerriteBead Rs Rp Cp Lp z) =
           Inr (Ser [R Rs, Ser [Ser [R Rp, L Lp None], C Cp None]])
    \<and> \<not> has_Par (Ser [R Rs, Ser [Ser [R Rp, L Lp None], C Cp None]])"
  by (simp add: FerriteBead_init_def FerriteBead_expand_def add_op_def Ser_init_def isinstance_I
      OnePort_impedance_def unset_def wrappers)

theorem FerriteBead_series_chain_witness:
  "FerriteBead_init point_engine 1 3 (1 / 4) 5 = Inr (FerriteBead 1 3 (1 / 4) 5 16)
   \<and> impedance point_engine (FerriteBead 1 3 (1 / 4) 5 16) = Inr 16
   \<and> expand (FerriteBead 1 3 (1 / 4) 5 (16::rat)) =
       Inr (Ser [R 1, Ser [Ser [R 3, L 5 None], C (1 / 4) None]])
   \<and> \<not> has_Par (Ser [R 1, Ser [Ser [R 3, L 5 None], C (1 / 4) (None :: rat option)]])"
  using FerriteBead_series_chain [of point_engine 1 3 "1 / 4" 5 16]
  by (simp add: point_engine_def)

subsection \<open>Combining two inductors of a Ser\<close>

lemma combine_inductors:
  fixes e :: "('a::{zero,one,plus,times,uminus,inverse}) engine"
  shows "combine e Ser_c (L l1 i1) (L l2 i2) =
     (if i1 = i2 then Inr (Some (L (l1 + l2) i1)) else Inl (ValueError inductors_msg))"
  by (cases i1; cases i2)
     (simp_all add: combine_def combine_Ser_same_def isinstance_leaves or_zero_def wrappers)

text \<open>
  C3, as amended. When \<^verbatim>\<open>simplify\<close> combines two sibling inductors of a Ser, the pair becomes
  one inductor whose inductance is the sum of the two, with their common initial current,
  when both specify the same initial current or neither specifies one; it raises in every
  other case: when both specify initial currents that differ, and also when only one of
  the two specifies an initial current (the test \<^verbatim>\<open>arg1.hasic != arg2.hasic\<close>). \<open>i1\<close> and \<open>i2\<close>
  are the optional \<^verbatim>\<open>i0\<close> arguments, so \<open>i1 = i2\<close> says: both absent, or both given and equal.
\<close>

theorem series_inductors:
  fixes e :: "('a::{zero,one,plus,times,uminus,inverse}) engine"
  shows "combine e Ser_c (L l1 i1) (L l2 i2) =
           (if i1 = i2 then Inr (Some (L (l1 + l2) i1)) else Inl (ValueError inductors_msg))
    \<and> simplify e deep (Ser [L l1 i1, L l2 i2]) =
           (if i1 = i2 then Inr (L (l1 + l2) i1) else Inl (ValueError inductors_msg))"
  by (simp add: combine_inductors simplify_scan_def isinstance_ParSer)

theorem series_inductors_witness:
  "simplify point_engine True (Ser [L 10 None, L 5 None]) = Inr (L 15 None)
   \<and> simplify point_engine True (Ser [L 10 (Some 2), L 5 (Some 2)]) = Inr (L 15 (Some 2))
   \<and> simplify point_engine True (Ser [L 10 (Some 2), L 5 (Some 3)]) = Inl (ValueError inductors_msg)"
  using series_inductors [of point_engine 10 None 5 None True]
    series_inductors [of point_engine 10 "Some 2" 5 "Some 2" True]
    series_inductors [of point_engine 10 "Some 2" 5 "Some 3" True]
  by simp

theorem one_initial_current_counterexample:
  "simplify point_engine True (Ser [L 10 (Some 3), L 5 None]) = Inl (ValueError inductors_msg)
   \<and> simplify point_engine True (Ser [L 10 (Some 0), L 5 None]) = Inl (ValueError inductors_msg)
   \<and> simplify point_engine True (Ser [L 10 None, L 5 (Some 0)]) = Inl (ValueError inductors_msg)"
  by (simp add: combine_inductors simplify_scan_def isinstance_ParSer)

subsection \<open>Absorbing a degenerate element\<close>

lemma and_zero_V:
  fixes e :: "('a::{zero,one,plus,times,uminus,inverse}) engine"
  shows "and_zero (isinstance x V_c) (Voc e x) = Inr (isinstance x V_c \<and> Voc e x = Inr 0)"
  by (cases x)
     (simp_all add: isinstance_leaves and_zero_def Voc_def isinstance_ParSer OnePort_Voc_def unset_def)

lemma and_zero_I:
  fixes e :: "('a::{zero,one,plus,times,uminus,inverse}) engine"
  shows "and_zero (isinstance x I_c) (Isc e x) = Inr (isinstance x I_c \<and> Isc e x = Inr 0)"
  by (cases x)
     (simp_all add: isinstance_leaves and_zero_def Isc_def isinstance_ParSer OnePort_Isc_def unset_def)

lemma and_zero_RZ:
  fixes e :: "('a::{zero,one,plus,times,uminus,inverse}) engine"
  shows "and_zero (isinstance x R_c \<or> isinstance x Z_c) (impedance e x) =
         Inr ((isinstance x R_c \<or> isinstance x Z_c) \<and> impedance e x = Inr 0)"
  by (cases x)
     (simp_all add: isinstance_leaves and_zero_def OnePort_impedance_def unset_def)

lemma and_zero_YG:
  fixes e :: "('a::{zero,one,plus,times,uminus,inverse}) engine"
  shows "and_zero (isinstance x Y_c \<or> isinstance x G_c) (admittance e x) =
         Inr ((isinstance x Y_c \<or> isinstance x G_c) \<and> admittance e x = Inr 0)"
  by (cases x)
     (simp_all add: isinstance_leaves and_zero_def OnePort_admittance_def OnePort_impedance_def
        unset_def)

lemma combine_Ser_differ_eq:
  fixes e :: "('a::{zero,one,plus,times,uminus,inverse}) engine"
  shows "combine_Ser_differ e arg1 arg2 =
     (if isinstance arg1 V_c \<and> Voc e arg1 = Inr 0 then Inr (Some arg2)
      else if isinstance arg2 V_c \<and> Voc e arg2 = Inr 0 then Inr (Some arg1)
      else if (isinstance arg1 R_c \<or> isinstance arg1 Z_c) \<and> impedance e arg1 = Inr 0
        then Inr (Some arg2)
      else if (isinstance arg2 R_c \<or> isinstance arg2 Z_c) \<and> impedance e arg2 = Inr 0
        then Inr (Some arg1)
      else Inr None)"
  unfolding combine_Ser_differ_def and_zero_V and_zero_RZ by simp

lemma combine_Par_differ_eq:
  fixes e :: "('a::{zero,one,plus,times,uminus,inverse}) engine"
  shows "combine_Par_differ e arg1 arg2 =
     (if isinstance arg1 I_c \<and> Isc e arg1 = Inr 0 then Inr (Some arg2)
      else if isinstance arg2 I_c \<and> Isc e arg2 = Inr 0 then Inr (Some arg1)
      else if (isinstance arg1 Y_c \<or> isinstance arg1 G_c) \<and> admittance e arg1 = Inr 0
        then Inr (Some arg2)
      else if (isinstance arg2 Y_c \<or> isinstance arg2 G_c) \<and> admittance e arg2 = Inr 0
        then Inr (Some arg1)
      else Inr None)"
  unfolding combine_Par_differ_def and_zero_I and_zero_YG by simp

lemmas run_simps =
  simplify_scan_def isinstance_ParSer isinstance_leaves combine_def combine_Ser_differ_eq
  combine_Par_differ_eq combine_Ser_same_def combine_Par_same_def Voc_def Isc_def
  OnePort_Voc_def OnePort_Isc_def OnePort_impedance_def OnePort_admittance_def unset_def
  or_zero_def wrappers construct_def Ser_init_def Par_init_def

text \<open>
  C5. The claim: in the pairwise-combine phase a degenerate element is absorbed and the
  other operand returned, in a Ser a voltage source whose open-circuit voltage is zero
  (or a resistor or general impedance whose impedance is zero), dually in a Par a current
  source whose short-circuit current is zero. \<^verbatim>\<open>_combine\<close> tests \<^verbatim>\<open>isinstance(arg, V)\<close> and
  \<^verbatim>\<open>isinstance(arg, I)\<close>, which the other source classes do not satisfy: the DC voltage source
  \<^verbatim>\<open>Vdc(0)\<close> has open-circuit voltage zero, and in series with \<^verbatim>\<open>R(5)\<close> it is not absorbed, the
  Ser comes back as it was, where \<^verbatim>\<open>V(0)\<close> in its place is absorbed; dually \<^verbatim>\<open>Idc(0)\<close> in
  parallel with \<^verbatim>\<open>R(5)\<close>.
\<close>

theorem zero_Vdc_and_Idc_not_absorbed:
  "isinstance (Vdc (0::rat)) VoltageSource_c
   \<and> Voc point_engine (Vdc 0) = Inr 0
   \<and> combine point_engine Ser_c (Vdc 0) (R 5) = Inr None
   \<and> simplify point_engine True (Ser [Vdc 0, R 5]) = Inr (Ser [Vdc 0, R 5])
   \<and> simplify point_engine True (Ser [V 0, R 5]) = Inr (R 5)
   \<and> simplify point_engine True (Ser [R 0, V 5]) = Inr (V 5)
   \<and> isinstance (Idc (0::rat)) CurrentSource_c
   \<and> Isc point_engine (Idc 0) = Inr 0
   \<and> combine point_engine Par_c (Idc 0) (R 5) = Inr None
   \<and> simplify point_engine True (Par [Idc 0, R 5]) = Inr (Par [Idc 0, R 5])
   \<and> simplify point_engine True (Par [I 0, R 5]) = Inr (R 5)"
  by (simp add: run_simps point_engine_fields isinstance_VoltageSource isinstance_CurrentSource)

subsection \<open>The results of thevenin and norton\<close>

lemma Ser_init_pair:
  "Ser_init [a, b] =
     (if isinstance a I_c \<and> isinstance b I_c then Inl (ValueError series_msg) else Inr (Ser [a, b]))"
  by (simp add: Ser_init_def)

lemma Par_init_pair:
  "Par_init [a, b] =
     (if isinstance a V_c \<and> isinstance b V_c then Inl (ValueError parallel_msg) else Inr (Par [a, b]))"
  by (simp add: Par_init_def)

text \<open>
  C6, as amended. With \<open>new\<close> the simplified network, \<open>voc\<close> and \<open>z\<close> its open-circuit
  voltage and impedance, and the leaves \<^verbatim>\<open>cpt\<close> makes of the two quantities after the domain
  resolution: \<^verbatim>\<open>thevenin\<close> returns just the impedance leaf when \<open>voc\<close> is 0, otherwise just the
  voltage leaf when \<open>z\<close> is 0, otherwise \<^verbatim>\<open>Ser(Z1, V1)\<close>. \<^verbatim>\<open>norton\<close> is the dual: just the
  admittance leaf when the short-circuit current is 0, otherwise just the current leaf
  when the admittance is 0, otherwise \<^verbatim>\<open>Par(Y1, I1)\<close>. So \<^verbatim>\<open>norton\<close> of a network with zero
  admittance and a short-circuit current that is not 0 returns just the current leaf, not
  a voltage leaf. The two constructors return the composite unless both leaves are
  instances of I (for Ser) or of V (for Par).
\<close>

theorem thevenin_norton_result:
  fixes e :: "('a::{zero,one,plus,times,uminus,inverse}) engine"
  assumes "simplify e True self = Inr new"
  shows "(Voc e new = Inr voc \<and> impedance e new = Inr z \<longrightarrow>
           thevenin e self =
             (if voc = 0 then Inr (cpt_Impedance e (fst (domain_resolution e voc z)))
              else if z = 0 then Inr (cpt_Voltage e (snd (domain_resolution e voc z)))
              else Ser_init [cpt_Impedance e (fst (domain_resolution e voc z)),
                             cpt_Voltage e (snd (domain_resolution e voc z))]))
    \<and> (Isc e new = Inr isc \<and> admittance e new = Inr y \<longrightarrow>
           norton e self =
             (if isc = 0 then Inr (cpt_Admittance e (fst (domain_resolution e isc y)))
              else if y = 0 then Inr (cpt_Current e (snd (domain_resolution e isc y)))
              else Par_init [cpt_Admittance e (fst (domain_resolution e isc y)),
                             cpt_Current e (snd (domain_resolution e isc y))]))
    \<and> (Isc e new = Inr isc \<and> isc \<noteq> 0 \<and> admittance e new = Inr 0 \<longrightarrow>
           norton e self = Inr (cpt_Current e (snd (domain_resolution e isc 0))))
    \<and> (\<not> (isinstance a I_c \<and> isinstance b I_c) \<longrightarrow> Ser_init [a, b] = Inr (Ser [a, b]))
    \<and> (\<not> (isinstance a V_c \<and> isinstance b V_c) \<longrightarrow> Par_init [a, b] = Inr (Par [a, b]))"
proof -
  have th: "thevenin e self =
      (if voc = 0 then Inr (cpt_Impedance e (fst (domain_resolution e voc z)))
       else if z = 0 then Inr (cpt_Voltage e (snd (domain_resolution e voc z)))
       else Ser_init [cpt_Impedance e (fst (domain_resolution e voc z)),
                      cpt_Voltage e (snd (domain_resolution e voc z))])"
    if "Voc e new = Inr voc" "impedance e new = Inr z" for voc z
    using assms that by (simp add: thevenin_def Let_def split: prod.splits)
  have no: "norton e self =
      (if isc = 0 then Inr (cpt_Admittance e (fst (domain_resolution e isc y)))
       else if y = 0 then Inr (cpt_Current e (snd (domain_resolution e isc y)))
       else Par_init [cpt_Admittance e (fst (domain_resolution e isc y)),
                      cpt_Current e (snd (domain_resolution e isc y))])"
    if "Isc e new = Inr isc" "admittance e new = Inr y" for isc y
    using assms that by (simp add: norton_def Let_def split: prod.splits)
  have no0: "norton e self = Inr (cpt_Current e (snd (domain_resolution e isc 0)))"
    if "Isc e new = Inr isc" "isc \<noteq> 0" "admittance e new = Inr 0"
    using no [OF that(1) that(3)] that(2) by simp
  have ser: "Ser_init [a, b] = Inr (Ser [a, b])" if "\<not> (isinstance a I_c \<and> isinstance b I_c)"
    using that by (simp add: Ser_init_pair)
  have par: "Par_init [a, b] = Inr (Par [a, b])" if "\<not> (isinstance a V_c \<and> isinstance b V_c)"
    using that by (simp add: Par_init_pair)
  from th no no0 ser par show ?thesis by blast
qed

theorem thevenin_norton_result_witness:
  "thevenin point_engine (R 5) = Inr (Z 5)
   \<and> thevenin point_engine (V 3) = Inr (V 3)
   \<and> thevenin point_engine (L 10 (Some 5)) = Inr (Ser [Z 20, V (- 50)])
   \<and> norton point_engine (R 5) = Inr (Y (1 / 5))
   \<and> norton point_engine (I 2) = Inr (I 2)
   \<and> norton point_engine (C 10 (Some 5)) = Inr (Par [Y 20, I 50])"
  using thevenin_norton_result [of point_engine "R 5" "R 5" 0 5 0 "1 / 5" "Z 5" "V 3"]
    thevenin_norton_result [of point_engine "V 3" "V 3" 3 0 0 0 "Z 5" "V 3"]
    thevenin_norton_result [of point_engine "L 10 (Some 5)" "L 10 (Some 5)" "- 50" 20 "- 5 / 2" "1 / 20" "Z 20" "V (- 50)"]
    thevenin_norton_result [of point_engine "I 2" "I 2" 0 0 2 0 "Y 20" "I 50"]
    thevenin_norton_result [of point_engine "C 10 (Some 5)" "C 10 (Some 5)" "5 / 2" "1 / 20" 50 20 "Y 20" "I 50"]
  by (simp add: point_resolution point_engine_fields run_simps)

theorem norton_zero_admittance_counterexample:
  "admittance point_engine (I 2) = Inr 0
   \<and> norton point_engine (I 2) = Inr (I 2)
   \<and> \<not> isinstance (I (2::rat)) VoltageSource_c
   \<and> admittance point_engine (CCCS 1 1) = Inr 0
   \<and> norton point_engine (CCCS 1 1) = Inr (Y 0)
   \<and> \<not> isinstance (Y (0::rat)) VoltageSource_c"
  by (simp add: norton_def point_resolution point_engine_fields run_simps
      isinstance_VoltageSource Let_def)

end
